theory Spec2Isabelle
  imports Main
begin

section \<open>JavaScript values\<close>

text \<open>
  The argument bags, request bodies and upstream payloads of the bridge are JavaScript
  values. A number is an integer that a double-precision number holds; where a number is
  printed, any other integer is first rounded to the nearest double, as the parser of the
  runtime does. A string is a list of code units below 256, the Latin-1 range of Unicode.
  An object is the list of its own properties in \<open>Object.entries\<close> order, with pairwise
  different keys.
\<close>

datatype js =
    Undefined
  | Null
  | Bool bool
  | Num int
  | Str string
  | Arr "js list"
  | Obj "(string \<times> js) list"

type_synonym obj = "(string \<times> js) list"

text \<open>JavaScript truthiness, as tested by \<open>!x\<close>, \<open>x && y\<close> and \<open>x || y\<close>.\<close>

fun truthy :: "js \<Rightarrow> bool" where
  "truthy Undefined = False"
| "truthy Null = False"
| "truthy (Bool b) = b"
| "truthy (Num n) = (n \<noteq> 0)"
| "truthy (Str s) = (s \<noteq> [])"
| "truthy (Arr xs) = True"
| "truthy (Obj ps) = True"

text \<open>Strict equality \<open>===\<close> of two values that come from different JSON documents:
  primitives are compared by value, arrays and objects by identity, so never equal.\<close>

fun strict_eq :: "js \<Rightarrow> js \<Rightarrow> bool" where
  "strict_eq (Arr xs) b = False"
| "strict_eq (Obj ps) b = False"
| "strict_eq a b = (a = b)"

text \<open>Reading and writing an own property of an object.\<close>

definition get_prop :: "obj \<Rightarrow> string \<Rightarrow> js" where
  "get_prop ps k = (case map_of ps k of None \<Rightarrow> Undefined | Some v \<Rightarrow> v)"

fun set_prop :: "string \<Rightarrow> js \<Rightarrow> obj \<Rightarrow> obj" where
  "set_prop k v [] = [(k, v)]"
| "set_prop k v ((k', v') # ps) =
     (if k' = k then (k, v) # ps else (k', v') # set_prop k v ps)"

text \<open>Exceptions. Every exception object has a \<open>message\<close>; the error thrown by the HTTP
  transport may also carry the upstream response.\<close>

record http_response =
  status :: int
  statusText :: string
  data :: js

datatype exn =
    Error string
  | TypeError string
  | McpError int string
  | AxiosError string "http_response option"

section \<open>Strings\<close>

definition startsWith :: "string \<Rightarrow> string \<Rightarrow> bool" where
  "startsWith s p = (take (length p) s = p)"

text \<open>
  \<open>toLowerCase\<close> on the code units below 256: the letters \<open>A\<close> to \<open>Z\<close> and the upper-case
  letters of the Latin-1 range, U+00C0 to U+00DE without the multiplication sign U+00D7,
  are mapped to the code unit 32 above them; every other code unit is left as it is.
\<close>

definition upper_case :: string where
  "upper_case =
     ''ABCDEFGHIJKLMNOPQRSTUVWXYZ''
     @ [CHR 0xC0, CHR 0xC1, CHR 0xC2, CHR 0xC3, CHR 0xC4, CHR 0xC5, CHR 0xC6, CHR 0xC7,
        CHR 0xC8, CHR 0xC9, CHR 0xCA, CHR 0xCB, CHR 0xCC, CHR 0xCD, CHR 0xCE, CHR 0xCF,
        CHR 0xD0, CHR 0xD1, CHR 0xD2, CHR 0xD3, CHR 0xD4, CHR 0xD5, CHR 0xD6,
        CHR 0xD8, CHR 0xD9, CHR 0xDA, CHR 0xDB, CHR 0xDC, CHR 0xDD, CHR 0xDE]"

definition lower_case :: string where
  "lower_case =
     ''abcdefghijklmnopqrstuvwxyz''
     @ [CHR 0xE0, CHR 0xE1, CHR 0xE2, CHR 0xE3, CHR 0xE4, CHR 0xE5, CHR 0xE6, CHR 0xE7,
        CHR 0xE8, CHR 0xE9, CHR 0xEA, CHR 0xEB, CHR 0xEC, CHR 0xED, CHR 0xEE, CHR 0xEF,
        CHR 0xF0, CHR 0xF1, CHR 0xF2, CHR 0xF3, CHR 0xF4, CHR 0xF5, CHR 0xF6,
        CHR 0xF8, CHR 0xF9, CHR 0xFA, CHR 0xFB, CHR 0xFC, CHR 0xFD, CHR 0xFE]"

definition lower_char :: "char \<Rightarrow> char" where
  "lower_char c = (case map_of (zip upper_case lower_case) c of None \<Rightarrow> c | Some d \<Rightarrow> d)"

definition toLowerCase :: "string \<Rightarrow> string" where
  "toLowerCase s = map lower_char s"

section \<open>URL normalization (apollo-client.ts, stripUrl)\<close>

text \<open>\<open>url.replace(/^https?:\/\//, "")\<close>: the pattern is case sensitive.\<close>

definition strip_protocol :: "string \<Rightarrow> string" where
  "strip_protocol s =
     (if startsWith s ''http://'' then drop 7 s
      else if startsWith s ''https://'' then drop 8 s
      else s)"

text \<open>\<open>stripped.replace(/^www\./, "")\<close>\<close>

definition strip_www :: "string \<Rightarrow> string" where
  "strip_www s = (if startsWith s ''www.'' then drop 4 s else s)"

text \<open>\<open>stripped.replace(/\/$/, "")\<close>: one trailing slash.\<close>

definition strip_trailing_slash :: "string \<Rightarrow> string" where
  "strip_trailing_slash s = (if s \<noteq> [] \<and> last s = CHR ''/'' then butlast s else s)"

text \<open>
  \<open>stripUrl\<close> receives whatever the caller or the upstream put under the URL key. A falsy
  value gives \<open>undefined\<close>. A string goes through the three replacements and is then
  lower-cased. Any other value has no callable \<open>replace\<close>: the call throws inside the
  \<open>try\<close>, and the \<open>catch\<close> writes a line to the console and returns the value itself.
  \<open>stripUrl\<close> is the value returned; the console line is \<open>stripUrl_log\<close> below.
\<close>

fun stripUrl :: "js \<Rightarrow> js" where
  "stripUrl (Str s) =
     (if s = [] then Undefined
      else Str (toLowerCase (strip_trailing_slash (strip_www (strip_protocol s)))))"
| "stripUrl v = (if \<not> truthy v then Undefined else v)"

text \<open>The normalization in the words of the specification: lower-case the URL, strip a
  leading scheme, strip a leading \<open>www.\<close>, strip one trailing slash. It is written on its
  own, without the three replacements of the code.\<close>

fun after_prefix :: "string \<Rightarrow> string \<Rightarrow> string option" where
  "after_prefix [] s = Some s"
| "after_prefix (p # ps) [] = None"
| "after_prefix (p # ps) (c # cs) = (if p = c then after_prefix ps cs else None)"

definition spec_normalize_url :: "string \<Rightarrow> string" where
  "spec_normalize_url s =
     (let l = toLowerCase s;
          no_scheme =
            (case after_prefix ''http://'' l of
               Some t \<Rightarrow> t
             | None \<Rightarrow> (case after_prefix ''https://'' l of Some t \<Rightarrow> t | None \<Rightarrow> l));
          no_www = (case after_prefix ''www.'' no_scheme of Some t \<Rightarrow> t | None \<Rightarrow> no_scheme)
      in case rev no_www of
           [] \<Rightarrow> no_www
         | c # cs \<Rightarrow> if c = CHR ''/'' then rev cs else no_www)"

section \<open>Range strings (index.ts, sanitizeRanges)\<close>

text \<open>\<open>range.replace("-", ",")\<close> with a string pattern replaces the first occurrence only.\<close>

fun replace_first :: "char \<Rightarrow> char \<Rightarrow> string \<Rightarrow> string" where
  "replace_first p r [] = []"
| "replace_first p r (c # cs) = (if c = p then r # cs else c # replace_first p r cs)"

text \<open>The callback of \<open>ranges.map\<close>.\<close>

fun sanitizeRange :: "js \<Rightarrow> js" where
  "sanitizeRange (Str r) =
     (if CHR ''-'' \<in> set r then Str (replace_first CHR ''-'' CHR '','' r)
      else Str r)"
| "sanitizeRange r = r"

fun isArray :: "js \<Rightarrow> bool" where
  "isArray (Arr xs) = True"
| "isArray v = False"

text \<open>\<open>sanitizeRanges\<close>: a falsy value and a value that is not an array are returned as they
  are.\<close>

definition sanitizeRanges :: "js \<Rightarrow> js" where
  "sanitizeRanges ranges =
     (if \<not> truthy ranges \<or> \<not> isArray ranges then ranges
      else case ranges of Arr rs \<Rightarrow> Arr (map sanitizeRange rs) | _ \<Rightarrow> ranges)"

text \<open>
  The first statement of the call-tool handler: the employee-count filter of an
  \<open>organization_search\<close> call is replaced, in the argument bag, by its sanitized form.
\<close>

definition sanitize_args :: "string \<Rightarrow> obj \<Rightarrow> obj" where
  "sanitize_args tool args =
     (if tool = ''organization_search''
         \<and> truthy (get_prop args ''organization_num_employees_ranges'')
      then set_prop ''organization_num_employees_ranges''
             (sanitizeRanges (get_prop args ''organization_num_employees_ranges'')) args
      else args)"

section \<open>Query parameters (apollo-client.ts, formatQueryParams)\<close>

text \<open>
  One iteration of \<open>value.forEach\<close>: the slot \<open>paramKey\<close> is set to a fresh array when it
  holds nothing truthy, and the item is pushed onto what the slot holds. Only an array has
  \<open>push\<close>; on any other truthy value the call throws.
\<close>

fun push_item :: "string \<Rightarrow> js \<Rightarrow> obj \<Rightarrow> exn + obj" where
  "push_item paramKey item fp =
     (let fp1 = (if \<not> truthy (get_prop fp paramKey) then set_prop paramKey (Arr []) fp else fp)
      in case get_prop fp1 paramKey of
           Arr ys \<Rightarrow> Inr (set_prop paramKey (Arr (ys @ [item])) fp1)
         | _ \<Rightarrow> Inl (TypeError ''formattedParams[paramKey].push is not a function''))"

fun forEach_push :: "string \<Rightarrow> js list \<Rightarrow> obj \<Rightarrow> exn + obj" where
  "forEach_push paramKey [] fp = Inr fp"
| "forEach_push paramKey (item # items) fp =
     (case push_item paramKey item fp of
        Inl e \<Rightarrow> Inl e
      | Inr fp' \<Rightarrow> forEach_push paramKey items fp')"

text \<open>The key of a sub-field, \<open>`${key}[${subKey}]`\<close>.\<close>

definition nested_key :: "string \<Rightarrow> string \<Rightarrow> string" where
  "nested_key key subKey = key @ ''['' @ subKey @ '']''"

text \<open>The loop over the sub-fields of a nested object.\<close>

fun format_nested :: "string \<Rightarrow> obj \<Rightarrow> obj \<Rightarrow> obj" where
  "format_nested key [] fp = fp"
| "format_nested key ((subKey, subValue) # rest) fp =
     format_nested key rest
       (if subValue \<noteq> Undefined \<and> subValue \<noteq> Null
        then set_prop (nested_key key subKey) subValue fp
        else fp)"

text \<open>The body of the loop over \<open>Object.entries(query)\<close>, for one entry, and the loop,
  with \<open>formattedParams\<close> as accumulator. Assigning a primitive value to the property
  \<open>__proto__\<close> of a plain object leaves the object as it is.\<close>

fun format_entry :: "string \<times> js \<Rightarrow> obj \<Rightarrow> exn + obj" where
  "format_entry (key, Undefined) fp = Inr fp"
| "format_entry (key, Null) fp = Inr fp"
| "format_entry (key, Arr items) fp = forEach_push (key @ ''[]'') items fp"
| "format_entry (key, Obj sub) fp = Inr (format_nested key sub fp)"
| "format_entry (key, v) fp = Inr (if key = ''__proto__'' then fp else set_prop key v fp)"

fun format_entries :: "obj \<Rightarrow> obj \<Rightarrow> exn + obj" where
  "format_entries [] fp = Inr fp"
| "format_entries (entry # rest) fp =
     (case format_entry entry fp of
        Inl e \<Rightarrow> Inl e
      | Inr fp' \<Rightarrow> format_entries rest fp')"

definition formatQueryParams :: "obj \<Rightarrow> exn + obj" where
  "formatQueryParams query = format_entries query []"

text \<open>The query entries a formatted parameter object holds under one key: the elements of
  an array value, in order, or the single value.\<close>

definition query_entries :: "obj \<Rightarrow> string \<Rightarrow> js list" where
  "query_entries fp k =
     (case get_prop fp k of Undefined \<Rightarrow> [] | Arr xs \<Rightarrow> xs | v \<Rightarrow> [v])"

text \<open>The query keys that one entry of a filter object writes.\<close>

fun param_keys :: "string \<times> js \<Rightarrow> string list" where
  "param_keys (key, Undefined) = []"
| "param_keys (key, Null) = []"
| "param_keys (key, Arr items) = (if items = [] then [] else [key @ ''[]''])"
| "param_keys (key, Obj sub) =
     map (\<lambda>(subKey, subValue). nested_key key subKey)
       (filter (\<lambda>(subKey, subValue). subValue \<noteq> Undefined \<and> subValue \<noteq> Null) sub)"
| "param_keys (key, v) = (if key = ''__proto__'' then [] else [key])"

text \<open>The keys of an object.\<close>

definition keys_of :: "obj \<Rightarrow> string set" where
  "keys_of ps = fst ` set ps"

text \<open>A string that lower-casing leaves as it is.\<close>

definition lowered :: "string \<Rightarrow> bool" where
  "lowered s = (toLowerCase s = s)"

section \<open>Strings built by the runtime\<close>

text \<open>The decimal digits of a natural number.\<close>

function digits :: "int \<Rightarrow> string" where
  "digits n =
     (if n < 10 then [''0123456789'' ! nat n]
      else digits (n div 10) @ [''0123456789'' ! nat (n mod 10)])"
  by pat_completeness auto
termination
  by (relation "measure nat") auto

declare digits.simps [simp del]

text \<open>
  The double nearest to a natural number, ties going to the even significand: a number
  below \<open>2^53\<close> is a double; a larger one keeps its 53 leading bits, rounded. A result of
  \<open>2^1024\<close> or more is \<open>Infinity\<close>, here \<open>None\<close>.
\<close>

function bit_length :: "int \<Rightarrow> nat" where
  "bit_length n = (if n \<le> 0 then 0 else Suc (bit_length (n div 2)))"
  by pat_completeness auto
termination
  by (relation "measure nat") auto

declare bit_length.simps [simp del]

definition to_double :: "int \<Rightarrow> int option" where
  "to_double x =
     (if x < 9007199254740992 then Some x
      else let sh = bit_length x - 53;
               q = x div 2 ^ sh;
               r = x mod 2 ^ sh;
               m = (if 2 ^ sh < 2 * r \<or> (2 * r = 2 ^ sh \<and> odd q) then q + 1 else q)
           in if 2 ^ 1024 \<le> m * 2 ^ sh then None else Some (m * 2 ^ sh))"

text \<open>
  \<open>Number::toString\<close> on a double \<open>y\<close> of \<open>2^53\<close> or more. The digits printed are those of
  the decimal with the fewest significant digits that the double \<open>y\<close> is nearest to and,
  among these, of the one nearest to \<open>y\<close>: for \<open>k = 1, 2, ...\<close> the two neighbours of \<open>y\<close>
  with \<open>k\<close> significant digits are tried, the nearer one first. A number of up to 21 digits
  is printed in full, a longer one in exponent form.
\<close>

definition decimal_neighbours :: "int \<Rightarrow> int \<Rightarrow> int list" where
  "decimal_neighbours y p =
     (let lo = (y div p) * p; hi = lo + p
      in if 2 * (y mod p) < p \<or> (2 * (y mod p) = p \<and> even (y div p)) then [lo, hi]
         else [hi, lo])"

definition shortest_decimal :: "int \<Rightarrow> int" where
  "shortest_decimal y =
     (let d = length (digits y)
      in case find (\<lambda>c. to_double c = Some y)
                (concat (map (\<lambda>k. decimal_neighbours y (10 ^ (d - k))) [1..<Suc d])) of
           Some c \<Rightarrow> c
         | None \<Rightarrow> y)"

definition number_text :: "int \<Rightarrow> string" where
  "number_text y =
     (let ds = digits (shortest_decimal y);
          s = rev (dropWhile (\<lambda>c. c = CHR ''0'') (rev ds))
      in if length ds \<le> 21 then ds
         else (if length s = 1 then s else hd s # CHR ''.'' # tl s)
              @ ''e+'' @ digits (int (length ds) - 1))"

text \<open>The string a number becomes in a template literal: an integer below \<open>2^53\<close> in
  absolute value is printed with all its digits.\<close>

definition show_int :: "int \<Rightarrow> string" where
  "show_int i =
     (if i < 0 then ''-'' else [])
     @ (if \<bar>i\<bar> < 9007199254740992 then digits \<bar>i\<bar>
        else case to_double \<bar>i\<bar> of
               None \<Rightarrow> ''Infinity''
             | Some y \<Rightarrow> number_text y)"

text \<open>\<open>Array.prototype.join\<close> on strings.\<close>

fun join :: "string \<Rightarrow> string list \<Rightarrow> string" where
  "join sep [] = []"
| "join sep [s] = s"
| "join sep (s # t # ss) = s @ sep @ join sep (t # ss)"

text \<open>\<open>s.split(",")\<close>: the pieces between the separator characters.\<close>

fun split :: "char \<Rightarrow> string \<Rightarrow> string list" where
  "split sep [] = [Nil]"
| "split sep (c # cs) =
     (case split sep cs of
        [] \<Rightarrow> [Nil]
      | piece # pieces \<Rightarrow> if c = sep then [] # piece # pieces else (c # piece) # pieces)"

text \<open>\<open>s.trim()\<close>: the white space and line terminator code units below 256 are tab, line
  feed, vertical tab, form feed, carriage return, space and the no-break space U+00A0.\<close>

definition is_space :: "char \<Rightarrow> bool" where
  "is_space c =
     (c \<in> set [CHR '' '', CHR 0x09, CHR 0x0A, CHR 0x0B, CHR 0x0C, CHR 0x0D, CHR 0xA0])"

definition trim :: "string \<Rightarrow> string" where
  "trim s = rev (dropWhile is_space (rev (dropWhile is_space s)))"

text \<open>
  The string a value becomes inside a template literal. An array is joined with commas,
  \<open>null\<close> and \<open>undefined\<close> elements giving the empty string. An object is converted by its
  \<open>toString\<close>: the inherited one gives \<open>[object Object]\<close>; an own property \<open>toString\<close> of a
  JSON value is not callable, and then neither \<open>toString\<close> nor \<open>valueOf\<close> gives a primitive
  and the conversion throws.
\<close>

fun to_string :: "js \<Rightarrow> exn + string"
  and to_strings :: "js list \<Rightarrow> exn + string list" where
  "to_string Undefined = Inr ''undefined''"
| "to_string Null = Inr ''null''"
| "to_string (Bool b) = Inr (if b then ''true'' else ''false'')"
| "to_string (Num n) = Inr (show_int n)"
| "to_string (Str s) = Inr s"
| "to_string (Arr xs) =
     (case to_strings xs of Inl e \<Rightarrow> Inl e | Inr pieces \<Rightarrow> Inr (join '','' pieces))"
| "to_string (Obj ps) =
     (if ''toString'' \<in> set (map fst ps)
      then Inl (TypeError ''Cannot convert object to primitive value'')
      else Inr ''[object Object]'')"
| "to_strings [] = Inr []"
| "to_strings (x # xs) =
     (case (if x = Undefined \<or> x = Null then Inr [] else to_string x) of
        Inl e \<Rightarrow> Inl e
      | Inr piece \<Rightarrow>
          (case to_strings xs of Inl e \<Rightarrow> Inl e | Inr pieces \<Rightarrow> Inr (piece # pieces)))"

text \<open>Reading a property of an arbitrary value: \<open>null\<close> and \<open>undefined\<close> have none, and the
  read throws. Of the properties of arrays and strings only \<open>length\<close> is read by the code.\<close>

fun read_prop :: "js \<Rightarrow> string \<Rightarrow> exn + js" where
  "read_prop Undefined k =
     Inl (TypeError (''Cannot read properties of undefined (reading '' @ [CHR 0x27] @ k
            @ [CHR 0x27] @ '')''))"
| "read_prop Null k =
     Inl (TypeError (''Cannot read properties of null (reading '' @ [CHR 0x27] @ k
            @ [CHR 0x27] @ '')''))"
| "read_prop (Obj ps) k = Inr (get_prop ps k)"
| "read_prop (Arr xs) k = Inr (if k = ''length'' then Num (int (length xs)) else Undefined)"
| "read_prop (Str s) k = Inr (if k = ''length'' then Num (int (length s)) else Undefined)"
| "read_prop v k = Inr Undefined"

section \<open>JSON.stringify(value, null, 2)\<close>

definition hex_digit :: "nat \<Rightarrow> char" where
  "hex_digit n = ''0123456789abcdef'' ! n"

definition escape_char :: "char \<Rightarrow> string" where
  "escape_char c =
     (if c = CHR 0x22 then [CHR 0x5C, CHR 0x22]
      else if c = CHR 0x5C then [CHR 0x5C, CHR 0x5C]
      else if c = CHR 0x08 then [CHR 0x5C, CHR ''b'']
      else if c = CHR 0x0C then [CHR 0x5C, CHR ''f'']
      else if c = CHR 0x0A then [CHR 0x5C, CHR ''n'']
      else if c = CHR 0x0D then [CHR 0x5C, CHR ''r'']
      else if c = CHR 0x09 then [CHR 0x5C, CHR ''t'']
      else if (of_char c :: nat) < 32
        then [CHR 0x5C, CHR ''u'', CHR ''0'', CHR ''0'',
              hex_digit (of_char c div 16), hex_digit (of_char c mod 16)]
      else [c])"

definition quote :: "string \<Rightarrow> string" where
  "quote s = CHR 0x22 # concat (map escape_char s) @ [CHR 0x22]"

text \<open>
  The serialization at a given indentation. Inside an array \<open>undefined\<close> prints as
  \<open>null\<close>; an object property bound to \<open>undefined\<close> is left out; a number that is not finite
  prints as \<open>null\<close>.
\<close>

fun serialize :: "string \<Rightarrow> js \<Rightarrow> string" where
  "serialize ind Undefined = ''null''"
| "serialize ind Null = ''null''"
| "serialize ind (Bool b) = (if b then ''true'' else ''false'')"
| "serialize ind (Num n) = (if to_double \<bar>n\<bar> = None then ''null'' else show_int n)"
| "serialize ind (Str s) = quote s"
| "serialize ind (Arr xs) =
     (if xs = [] then ''[]''
      else ''['' @ [CHR 0x0A] @ (ind @ ''  '')
        @ join ('','' @ [CHR 0x0A] @ (ind @ ''  '')) (map (serialize (ind @ ''  '')) xs)
        @ [CHR 0x0A] @ ind @ '']'')"
| "serialize ind (Obj ps) =
     (if filter (\<lambda>p. snd p \<noteq> Undefined) ps = [] then ''{}''
      else ''{'' @ [CHR 0x0A] @ (ind @ ''  '')
        @ join ('','' @ [CHR 0x0A] @ (ind @ ''  ''))
            (map (\<lambda>p. quote (fst p) @ '': '' @ serialize (ind @ ''  '') (snd p))
               (filter (\<lambda>p. snd p \<noteq> Undefined) ps))
        @ [CHR 0x0A] @ ind @ ''}'')"

text \<open>At top level \<open>JSON.stringify(undefined)\<close> is \<open>undefined\<close>, not a string.\<close>

definition JSON_stringify :: "js \<Rightarrow> js" where
  "JSON_stringify v = (if v = Undefined then Undefined else Str (serialize [] v))"

section \<open>Effects: HTTP requests, console output, exceptions\<close>

record http_request =
  http_method :: string
  url :: string
  body :: js
  params :: js
  headers :: "(string \<times> string) list"

datatype logged = Val js | Thrown exn

datatype event =
    Request http_request
  | ConsoleLog "logged list"
  | ConsoleError "logged list"

text \<open>
  An asynchronous computation returns a value or throws, and leaves a trace of the requests
  it issued and the lines it wrote to the console, in order.
\<close>

type_synonym 'a io = "(exn + 'a) \<times> event list"

definition io_return :: "'a \<Rightarrow> 'a io" where
  "io_return v = (Inr v, [])"

definition io_throw :: "exn \<Rightarrow> 'a io" where
  "io_throw e = (Inl e, [])"

definition io_lift :: "exn + 'a \<Rightarrow> 'a io" where
  "io_lift r = (r, [])"

definition io_emit :: "event \<Rightarrow> unit io" where
  "io_emit ev = (Inr (), [ev])"

definition io_bind :: "'a io \<Rightarrow> ('a \<Rightarrow> 'b io) \<Rightarrow> 'b io" where
  "io_bind m f =
     (case m of
        (Inl e, t) \<Rightarrow> (Inl e, t)
      | (Inr v, t) \<Rightarrow> (case f v of (r, t') \<Rightarrow> (r, t @ t')))"

text \<open>\<open>try { m } catch (error) { h error }\<close>\<close>

definition io_catch :: "'a io \<Rightarrow> (exn \<Rightarrow> 'a io) \<Rightarrow> 'a io" where
  "io_catch m h =
     (case m of
        (Inl e, t) \<Rightarrow> (case h e of (r, t') \<Rightarrow> (r, t @ t'))
      | (Inr v, t) \<Rightarrow> (Inr v, t))"

text \<open>The HTTP transport is the environment: it decides, for each request, whether the
  promise resolves with a response or rejects with an error.\<close>

type_synonym transport = "http_request \<Rightarrow> exn + http_response"

definition http_send :: "transport \<Rightarrow> http_request \<Rightarrow> http_response io" where
  "http_send net req = (net req, [Request req])"

text \<open>
  The message of an exception. The message of an \<open>McpError\<close> is built by the protocol
  SDK's constructor as \<open>`MCP error ${code}: ${message}`\<close>.
\<close>

fun message :: "exn \<Rightarrow> string" where
  "message (Error m) = m"
| "message (TypeError m) = m"
| "message (McpError code m) = ''MCP error '' @ show_int code @ '': '' @ m"
| "message (AxiosError m r) = m"

text \<open>\<open>error.response\<close>: only the transport's error carries one.\<close>

fun response_of :: "exn \<Rightarrow> http_response option" where
  "response_of (AxiosError m r) = r"
| "response_of e = None"

text \<open>The requests of a trace, in the order in which they were issued.\<close>

fun requests_of :: "event list \<Rightarrow> http_request list" where
  "requests_of [] = []"
| "requests_of (Request req # t) = req # requests_of t"
| "requests_of (ev # t) = requests_of t"

text \<open>A call of \<open>stripUrl\<close>: its value, and the console line of its \<open>catch\<close> block when
  the argument is truthy and not a string.\<close>

definition stripUrl_log :: "js \<Rightarrow> event list" where
  "stripUrl_log v =
     (case v of
        Str s \<Rightarrow> []
      | _ \<Rightarrow> if truthy v
             then [ConsoleError [Val (Str ''Error stripping URL:''),
                                 Thrown (TypeError ''url.replace is not a function'')]]
             else [])"

definition stripUrl_io :: "js \<Rightarrow> js io" where
  "stripUrl_io v = (Inr (stripUrl v), stripUrl_log v)"


text \<open>Sequencing of steps that may throw but have no other effect, and the array methods
  \<open>map\<close> and \<open>filter\<close> with a callback that may throw (and, for \<open>filter\<close>, write to the
  console).\<close>

definition exn_bind :: "exn + 'a \<Rightarrow> ('a \<Rightarrow> exn + 'b) \<Rightarrow> exn + 'b" where
  "exn_bind r f = (case r of Inl e \<Rightarrow> Inl e | Inr v \<Rightarrow> f v)"

fun map_exn :: "('a \<Rightarrow> exn + 'b) \<Rightarrow> 'a list \<Rightarrow> exn + 'b list" where
  "map_exn f [] = Inr []"
| "map_exn f (x # xs) =
     exn_bind (f x) (\<lambda>y. exn_bind (map_exn f xs) (\<lambda>ys. Inr (y # ys)))"

fun filter_io :: "('a \<Rightarrow> bool io) \<Rightarrow> 'a list \<Rightarrow> 'a list io" where
  "filter_io f [] = io_return []"
| "filter_io f (x # xs) =
     io_bind (f x)
       (\<lambda>keep. io_bind (filter_io f xs) (\<lambda>ys. io_return (if keep then x # ys else ys)))"

section \<open>The upstream client (apollo-client.ts, class ApolloClient)\<close>

definition baseUrl :: string where
  "baseUrl = ''https://api.apollo.io/api/v1''"

text \<open>The headers of the client's axios instance.\<close>

definition instance_headers :: "string \<Rightarrow> (string \<times> string) list" where
  "instance_headers apiKey =
     [(''Content-Type'', ''application/json''), (''Cache-Control'', ''no-cache''),
      (''x-api-key'', apiKey)]"

text \<open>
  Six operations end in the same way. A response with status 200 gives its payload; any
  other response is logged and gives \<open>null\<close>. Whatever is thrown inside the \<open>try\<close> is logged,
  with the status and status text of the response when the error carries one and the
  error's message otherwise, and gives \<open>null\<close>.
\<close>

definition status_line :: "http_response \<Rightarrow> string" where
  "status_line response =
     ''Error: '' @ show_int (status response) @ '' - '' @ statusText response"

definition error_line :: "exn \<Rightarrow> string" where
  "error_line error =
     ''Error: ''
     @ (case response_of error of None \<Rightarrow> ''undefined'' | Some r \<Rightarrow> show_int (status r))
     @ '' - ''
     @ (case response_of error of
          None \<Rightarrow> message error
        | Some r \<Rightarrow> if statusText r \<noteq> [] then statusText r else message error)"

definition unwrap_response :: "http_response \<Rightarrow> js io" where
  "unwrap_response response =
     (if status response = 200 then io_return (data response)
      else io_bind (io_emit (ConsoleError [Val (Str (status_line response))]))
             (\<lambda>_. io_return Null))"

definition log_error_null :: "exn \<Rightarrow> js io" where
  "log_error_null error =
     io_bind (io_emit (ConsoleError [Val (Str (error_line error))])) (\<lambda>_. io_return Null)"

definition peopleEnrichment_request :: "string \<Rightarrow> obj \<Rightarrow> http_request" where
  "peopleEnrichment_request apiKey query =
     \<lparr>http_method = ''POST'', url = baseUrl @ ''/people/match'', body = Obj query,
      params = Undefined, headers = instance_headers apiKey\<rparr>"

definition peopleEnrichment :: "transport \<Rightarrow> string \<Rightarrow> obj \<Rightarrow> js io" where
  "peopleEnrichment net apiKey query =
     io_catch
       (io_bind (io_emit (ConsoleLog [Val (Str ''url''), Val (Str (baseUrl @ ''/people/match''))]))
         (\<lambda>_. io_bind (io_emit (ConsoleLog [Val (Str ''query''), Val (Obj query)]))
           (\<lambda>_. io_bind (http_send net (peopleEnrichment_request apiKey query))
                   unwrap_response)))
       log_error_null"

definition bulkPeopleEnrichment_request :: "string \<Rightarrow> obj \<Rightarrow> http_request" where
  "bulkPeopleEnrichment_request apiKey query =
     \<lparr>http_method = ''POST'', url = baseUrl @ ''/people/bulk_match'', body = Obj query,
      params = Undefined, headers = instance_headers apiKey\<rparr>"

definition bulkPeopleEnrichment :: "transport \<Rightarrow> string \<Rightarrow> obj \<Rightarrow> js io" where
  "bulkPeopleEnrichment net apiKey query =
     io_catch
       (io_bind (http_send net (bulkPeopleEnrichment_request apiKey query)) unwrap_response)
       log_error_null"

definition organizationEnrichment_request :: "string \<Rightarrow> obj \<Rightarrow> http_request" where
  "organizationEnrichment_request apiKey query =
     \<lparr>http_method = ''GET'', url = baseUrl @ ''/organizations/enrich'', body = Undefined,
      params = Obj query, headers = instance_headers apiKey\<rparr>"

definition organizationEnrichment :: "transport \<Rightarrow> string \<Rightarrow> obj \<Rightarrow> js io" where
  "organizationEnrichment net apiKey query =
     io_catch
       (io_bind (http_send net (organizationEnrichment_request apiKey query)) unwrap_response)
       log_error_null"

definition peopleSearch_request :: "string \<Rightarrow> obj \<Rightarrow> http_request" where
  "peopleSearch_request apiKey formattedParams =
     \<lparr>http_method = ''POST'', url = baseUrl @ ''/mixed_people/search'', body = Obj [],
      params = Obj formattedParams, headers = instance_headers apiKey\<rparr>"

definition peopleSearch :: "transport \<Rightarrow> string \<Rightarrow> obj \<Rightarrow> js io" where
  "peopleSearch net apiKey query =
     io_catch
       (io_bind (io_lift (formatQueryParams query))
         (\<lambda>formattedParams.
            io_bind (http_send net (peopleSearch_request apiKey formattedParams))
              unwrap_response))
       log_error_null"

definition organizationSearch_request :: "string \<Rightarrow> obj \<Rightarrow> http_request" where
  "organizationSearch_request apiKey formattedParams =
     \<lparr>http_method = ''POST'', url = baseUrl @ ''/mixed_companies/search'', body = Obj [],
      params = Obj formattedParams, headers = instance_headers apiKey\<rparr>"

definition organizationSearch :: "transport \<Rightarrow> string \<Rightarrow> obj \<Rightarrow> js io" where
  "organizationSearch net apiKey query =
     io_catch
       (io_bind (io_lift (formatQueryParams query))
         (\<lambda>formattedParams.
            io_bind (http_send net (organizationSearch_request apiKey formattedParams))
              unwrap_response))
       log_error_null"

text \<open>The URL of the job postings is built inside the \<open>try\<close> block, from the organization
  identifier as the template literal converts it.\<close>

definition organizationJobPostings_request :: "string \<Rightarrow> string \<Rightarrow> http_request" where
  "organizationJobPostings_request apiKey organizationIdText =
     \<lparr>http_method = ''GET'',
      url = baseUrl @ ''/organizations/'' @ organizationIdText @ ''/job_postings'',
      body = Undefined, params = Undefined, headers = instance_headers apiKey\<rparr>"

definition organizationJobPostings :: "transport \<Rightarrow> string \<Rightarrow> js \<Rightarrow> js io" where
  "organizationJobPostings net apiKey organizationId =
     io_catch
       (io_bind (io_lift (to_string organizationId))
         (\<lambda>organizationIdText.
            io_bind (http_send net (organizationJobPostings_request apiKey organizationIdText))
              unwrap_response))
       log_error_null"

subsection \<open>getPersonEmail\<close>

text \<open>The request carries the current time, \<open>Date.now()\<close>, as \<open>cacheKey\<close>.\<close>

definition getPersonEmail_request :: "string \<Rightarrow> int \<Rightarrow> js \<Rightarrow> http_request" where
  "getPersonEmail_request apiKey now apolloId =
     \<lparr>http_method = ''POST'',
      url = ''https://app.apollo.io/api/v1/mixed_people/add_to_my_prospects'',
      body = Obj [(''entity_ids'', Arr [apolloId]),
                  (''analytics_context'', Str ''Searcher: Individual Add Button''),
                  (''skip_fetching_people'', Bool True),
                  (''cta_name'', Str ''Access email''),
                  (''cacheKey'', Num now)],
      params = Undefined,
      headers = [(''X-Api-Key'', apiKey), (''Content-Type'', ''application/json'')]\<rparr>"

text \<open>\<open>(response?.data?.contacts ?? []).map((item) => item.email)\<close>\<close>

definition contact_emails :: "js \<Rightarrow> exn + js" where
  "contact_emails response_data =
     exn_bind (read_prop response_data ''contacts'')
       (\<lambda>contacts.
          case (if contacts = Undefined \<or> contacts = Null then Arr [] else contacts) of
            Arr items \<Rightarrow>
              exn_bind (map_exn (\<lambda>item. read_prop item ''email'') items)
                (\<lambda>emails. Inr (Arr emails))
          | _ \<Rightarrow> Inl (TypeError ''(intermediate value).map is not a function''))"

definition getPersonEmail_try :: "transport \<Rightarrow> string \<Rightarrow> int \<Rightarrow> js \<Rightarrow> js io" where
  "getPersonEmail_try net apiKey now apolloId =
     (if \<not> truthy apolloId then io_throw (Error ''Apollo ID is required'')
      else io_bind (http_send net (getPersonEmail_request apiKey now apolloId))
        (\<lambda>response.
           if \<not> truthy (data response)
           then io_throw (Error ''No data received from Apollo API'')
           else io_lift (contact_emails (data response))))"

definition getPersonEmail :: "transport \<Rightarrow> string \<Rightarrow> int \<Rightarrow> js \<Rightarrow> js io" where
  "getPersonEmail net apiKey now apolloId =
     io_catch (getPersonEmail_try net apiKey now apolloId)
       (\<lambda>error.
          io_bind
            (io_emit (ConsoleError [Val (Str (''Error getting person email: '' @ message error))]))
            (\<lambda>_. io_return Null))"

subsection \<open>employeesOfCompany\<close>

definition direct_headers :: "string \<Rightarrow> (string \<times> string) list" where
  "direct_headers apiKey = [(''Content-Type'', ''application/json''), (''X-Api-Key'', apiKey)]"

definition company_search_request :: "string \<Rightarrow> js \<Rightarrow> http_request" where
  "company_search_request apiKey company =
     \<lparr>http_method = ''POST'', url = ''https://api.apollo.io/v1/mixed_companies/search'',
      body = Obj [(''q_organization_name'', company), (''page'', Num 1), (''limit'', Num 100)],
      params = Undefined, headers = direct_headers apiKey\<rparr>"

definition people_search_request :: "string \<Rightarrow> obj \<Rightarrow> http_request" where
  "people_search_request apiKey peopleSearchPayload =
     \<lparr>http_method = ''POST'', url = ''https://api.apollo.io/v1/mixed_people/search'',
      body = Obj peopleSearchPayload, params = Undefined, headers = direct_headers apiKey\<rparr>"

text \<open>The callback of \<open>organizations.filter\<close>: a candidate is kept when its stripped LinkedIn
  URL and the caller's are both truthy and strictly equal, or its stripped website URL and
  the caller's are.\<close>

definition url_matches :: "js \<Rightarrow> js \<Rightarrow> js \<Rightarrow> bool io" where
  "url_matches strippedLinkedinUrl strippedWebsiteUrl item =
     io_bind (io_lift (read_prop item ''linkedin_url''))
       (\<lambda>item_linkedin_url. io_bind (stripUrl_io item_linkedin_url)
         (\<lambda>companyLinkedin. io_bind (io_lift (read_prop item ''website_url''))
           (\<lambda>item_website_url. io_bind (stripUrl_io item_website_url)
             (\<lambda>companyWebsite.
                io_return
                  (if truthy strippedLinkedinUrl \<and> truthy companyLinkedin
                      \<and> strict_eq companyLinkedin strippedLinkedinUrl then True
                   else if truthy strippedWebsiteUrl \<and> truthy companyWebsite
                      \<and> strict_eq companyWebsite strippedWebsiteUrl then True
                   else False)))))"

text \<open>From the check of \<open>organizations.length\<close> to the choice of \<open>companyObj\<close>. Only an array
  has \<open>filter\<close>.\<close>

definition choose_company :: "js \<Rightarrow> js \<Rightarrow> js \<Rightarrow> js io" where
  "choose_company strippedLinkedinUrl strippedWebsiteUrl organizations =
     io_bind (io_lift (read_prop organizations ''length''))
       (\<lambda>len.
          if strict_eq len (Num 0) then io_throw (Error ''No organizations found'')
          else case organizations of
                 Arr orgs \<Rightarrow>
                   io_bind (filter_io (url_matches strippedLinkedinUrl strippedWebsiteUrl) orgs)
                     (\<lambda>companyObjs.
                        io_return
                          (case companyObjs of
                             c # cs \<Rightarrow> c
                           | [] \<Rightarrow> (case orgs of org # rest \<Rightarrow> org | [] \<Rightarrow> Undefined)))
               | _ \<Rightarrow> io_throw (TypeError ''organizations.filter is not a function''))"

text \<open>\<open>(v ?? "").split(",").map((item) => item.trim())\<close> for a truthy \<open>v\<close>: only a string
  has \<open>split\<close>.\<close>

definition split_trim :: "js \<Rightarrow> exn + js" where
  "split_trim v =
     (case v of
        Str s \<Rightarrow> Inr (Arr (map (\<lambda>item. Str (trim item)) (split CHR '','' s)))
      | _ \<Rightarrow> Inl (TypeError ''(intermediate value).split is not a function''))"

definition people_search_payload :: "js \<Rightarrow> obj \<Rightarrow> exn + obj" where
  "people_search_payload companyId query =
     exn_bind
       (if truthy (get_prop query ''person_seniorities'')
        then exn_bind (split_trim (get_prop query ''person_seniorities''))
               (\<lambda>titles. Inr (set_prop ''person_titles'' titles
                  [(''organization_ids'', Arr [companyId]), (''page'', Num 1), (''limit'', Num 100)]))
        else Inr [(''organization_ids'', Arr [companyId]), (''page'', Num 1), (''limit'', Num 100)])
       (\<lambda>payload.
          if truthy (get_prop query ''contact_email_status'')
          then exn_bind (split_trim (get_prop query ''contact_email_status''))
                 (\<lambda>statuses. Inr (set_prop ''contact_email_status_v2'' statuses payload))
          else Inr payload)"

definition employeesOfCompany_try :: "transport \<Rightarrow> string \<Rightarrow> obj \<Rightarrow> js io" where
  "employeesOfCompany_try net apiKey query =
     (if \<not> truthy (get_prop query ''company'') then io_throw (Error ''Company name is required'')
      else
        io_bind (stripUrl_io (get_prop query ''website_url''))
          (\<lambda>strippedWebsiteUrl. io_bind (stripUrl_io (get_prop query ''linkedin_url''))
            (\<lambda>strippedLinkedinUrl.
        io_bind (http_send net (company_search_request apiKey (get_prop query ''company'')))
          (\<lambda>mixedCompaniesResponse.
             if \<not> truthy (data mixedCompaniesResponse)
             then io_throw (Error ''No data received from Apollo API'')
             else
               io_bind (io_lift (read_prop (data mixedCompaniesResponse) ''organizations''))
                 (\<lambda>organizations.
               io_bind (choose_company strippedLinkedinUrl strippedWebsiteUrl organizations)
                 (\<lambda>companyObj. io_bind (io_lift (read_prop companyObj ''id''))
                   (\<lambda>companyId.
                      if \<not> truthy companyId
                      then io_throw (Error ''Could not determine company ID'')
                      else
                        io_bind (io_lift (people_search_payload companyId query))
                          (\<lambda>peopleSearchPayload.
                             io_bind (http_send net (people_search_request apiKey peopleSearchPayload))
                               (\<lambda>peopleResponse.
                                  if \<not> truthy (data peopleResponse)
                                  then io_throw (Error ''No data received from Apollo API'')
                                  else io_bind (io_lift (read_prop (data peopleResponse) ''people''))
                                         (\<lambda>people. io_return
                                            (if truthy people then people else Arr [])))))))))))"

definition employeesOfCompany :: "transport \<Rightarrow> string \<Rightarrow> obj \<Rightarrow> js io" where
  "employeesOfCompany net apiKey query =
     io_catch (employeesOfCompany_try net apiKey query)
       (\<lambda>error.
          io_bind
            (io_emit (ConsoleError [Val (Str (''Error finding employees: '' @ message error))]))
            (\<lambda>_. io_return Null))"

section \<open>The dispatcher (index.ts, the call-tool request handler)\<close>

text \<open>The client object as the handler sees it: eight asynchronous methods.\<close>

record apollo =
  call_bulkPeopleEnrichment :: "obj \<Rightarrow> js io"
  call_peopleEnrichment :: "obj \<Rightarrow> js io"
  call_organizationEnrichment :: "obj \<Rightarrow> js io"
  call_peopleSearch :: "obj \<Rightarrow> js io"
  call_organizationSearch :: "obj \<Rightarrow> js io"
  call_organizationJobPostings :: "js \<Rightarrow> js io"
  call_getPersonEmail :: "js \<Rightarrow> js io"
  call_employeesOfCompany :: "obj \<Rightarrow> js io"

definition ApolloClient :: "transport \<Rightarrow> string \<Rightarrow> int \<Rightarrow> apollo" where
  "ApolloClient net apiKey now =
     \<lparr>call_bulkPeopleEnrichment = bulkPeopleEnrichment net apiKey,
      call_peopleEnrichment = peopleEnrichment net apiKey,
      call_organizationEnrichment = organizationEnrichment net apiKey,
      call_peopleSearch = peopleSearch net apiKey,
      call_organizationSearch = organizationSearch net apiKey,
      call_organizationJobPostings = organizationJobPostings net apiKey,
      call_getPersonEmail = getPersonEmail net apiKey now,
      call_employeesOfCompany = employeesOfCompany net apiKey\<rparr>"

record call_tool_request =
  name :: string
  arguments :: "obj option"

record text_content =
  content_type :: string
  content_text :: js

record call_tool_result =
  content :: "text_content list"
  isError :: "bool option"

text \<open>The response of a served call: one text item holding the pretty-printed result, and
  no \<open>isError\<close> property.\<close>

definition text_result :: "js \<Rightarrow> call_tool_result" where
  "text_result result =
     \<lparr>content = [\<lparr>content_type = ''text'', content_text = JSON_stringify result\<rparr>],
      isError = None\<rparr>"

text \<open>The response built by the \<open>catch\<close> block of the handler.\<close>

definition error_result :: "exn \<Rightarrow> call_tool_result" where
  "error_result error =
     \<lparr>content = [\<lparr>content_type = ''text'',
                  content_text = Str (''Apollo.io API error: '' @ message error)\<rparr>],
      isError = Some True\<rparr>"

definition MethodNotFound :: int where
  "MethodNotFound = - 32601"

text \<open>The \<open>switch\<close> on the tool name.\<close>

definition tool_switch :: "apollo \<Rightarrow> string \<Rightarrow> obj \<Rightarrow> call_tool_result io" where
  "tool_switch client tool args =
     (if tool = ''bulk_people_enrichment'' then
        (if \<not> truthy (get_prop args ''details'') \<or> \<not> isArray (get_prop args ''details'')
         then io_throw (Error ''The 'details' array is required for bulk people enrichment'')
         else io_bind (call_bulkPeopleEnrichment client args) (\<lambda>result. io_return (text_result result)))
      else if tool = ''people_enrichment'' then
        io_bind (call_peopleEnrichment client args) (\<lambda>result. io_return (text_result result))
      else if tool = ''organization_enrichment'' then
        io_bind (call_organizationEnrichment client args) (\<lambda>result. io_return (text_result result))
      else if tool = ''people_search'' then
        io_bind (call_peopleSearch client args) (\<lambda>result. io_return (text_result result))
      else if tool = ''organization_search'' then
        io_bind (call_organizationSearch client args) (\<lambda>result. io_return (text_result result))
      else if tool = ''organization_job_postings'' then
        io_bind (call_organizationJobPostings client (get_prop args ''organization_id''))
          (\<lambda>result. io_return (text_result result))
      else if tool = ''get_person_email'' then
        io_bind (call_getPersonEmail client (get_prop args ''apollo_id''))
          (\<lambda>result. io_return (text_result result))
      else if tool = ''employees_of_company'' then
        io_bind (call_employeesOfCompany client args) (\<lambda>result. io_return (text_result result))
      else io_throw (McpError MethodNotFound (''Unknown tool: '' @ tool)))"

text \<open>The body of the \<open>try\<close> block: the argument bag (\<open>request.params.arguments ?? {}\<close>),
  the sanitization for \<open>organization_search\<close>, and the switch.\<close>

definition request_args :: "call_tool_request \<Rightarrow> obj" where
  "request_args request = (case arguments request of None \<Rightarrow> [] | Some args \<Rightarrow> args)"

definition call_tool_try :: "apollo \<Rightarrow> call_tool_request \<Rightarrow> call_tool_result io" where
  "call_tool_try client request =
     tool_switch client (name request) (sanitize_args (name request) (request_args request))"

definition call_tool :: "apollo \<Rightarrow> call_tool_request \<Rightarrow> call_tool_result io" where
  "call_tool client request =
     io_catch (call_tool_try client request)
       (\<lambda>error.
          io_bind
            (io_emit (ConsoleError
               [Val (Str (''Error executing tool '' @ name request @ '':'')), Thrown error]))
            (\<lambda>_. io_return (error_result error)))"

text \<open>The names of the eight tools of the catalog.\<close>

definition registered_tools :: "string list" where
  "registered_tools =
     [''people_enrichment'', ''organization_enrichment'', ''people_search'',
      ''organization_search'', ''organization_job_postings'', ''get_person_email'',
      ''employees_of_company'', ''bulk_people_enrichment'']"

text \<open>The client call that the switch makes for a tool name, and the check that the switch
  makes before it: only \<open>bulk_people_enrichment\<close> validates its arguments.\<close>

definition client_call :: "apollo \<Rightarrow> string \<Rightarrow> obj \<Rightarrow> js io" where
  "client_call client tool args =
     (if tool = ''bulk_people_enrichment'' then call_bulkPeopleEnrichment client args
      else if tool = ''people_enrichment'' then call_peopleEnrichment client args
      else if tool = ''organization_enrichment'' then call_organizationEnrichment client args
      else if tool = ''people_search'' then call_peopleSearch client args
      else if tool = ''organization_search'' then call_organizationSearch client args
      else if tool = ''organization_job_postings''
        then call_organizationJobPostings client (get_prop args ''organization_id'')
      else if tool = ''get_person_email''
        then call_getPersonEmail client (get_prop args ''apollo_id'')
      else if tool = ''employees_of_company'' then call_employeesOfCompany client args
      else io_throw (McpError MethodNotFound (''Unknown tool: '' @ tool)))"

definition details_missing :: "string \<Rightarrow> obj \<Rightarrow> bool" where
  "details_missing tool args =
     (tool = ''bulk_people_enrichment''
      \<and> (\<not> truthy (get_prop args ''details'') \<or> \<not> isArray (get_prop args ''details'')))"

text \<open>Transports and a client used in the examples: a client whose people search throws, a
  transport that rejects every request with a 404 response, and one that answers every
  request with status 200 and the payload \<open>null\<close>.\<close>

definition throwing_client :: apollo where
  "throwing_client =
     (ApolloClient (\<lambda>req. Inl (Error ''unused'')) ''key'' 0)
       \<lparr>call_peopleSearch := \<lambda>args. io_throw (Error ''socket hang up'')\<rparr>"

definition net_404 :: transport where
  "net_404 req =
     Inl (AxiosError ''Request failed with status code 404''
            (Some \<lparr>status = 404, statusText = ''Not Found'', data = Null\<rparr>))"

definition net_200_null :: transport where
  "net_200_null req = Inr \<lparr>status = 200, statusText = ''OK'', data = Null\<rparr>"

text \<open>A transport that answers the organization search of \<open>employeesOfCompany\<close> with one
  candidate and rejects the people search with a 429 response.\<close>

definition net_people_search_rejected :: transport where
  "net_people_search_rejected req =
     (if url req = ''https://api.apollo.io/v1/mixed_people/search''
      then Inl (AxiosError ''Request failed with status code 429''
                  (Some \<lparr>status = 429, statusText = ''Too Many Requests'', data = Null\<rparr>))
      else Inr \<lparr>status = 200, statusText = ''OK'',
                data = Obj [(''organizations'', Arr [Obj [(''id'', Str ''A'')]])]\<rparr>)"


text \<open>
  The choice of the company as a function of the candidates. A candidate matches when the
  caller's normalized LinkedIn URL is truthy (a non-empty string) and identical to the
  candidate's normalized LinkedIn URL, or the caller's normalized website URL is truthy and
  identical to the candidate's normalized website URL. The choice is the first candidate
  that matches, and the first candidate when none does.
\<close>

definition field :: "js \<Rightarrow> string \<Rightarrow> js" where
  "field v k = (case read_prop v k of Inl e \<Rightarrow> Undefined | Inr x \<Rightarrow> x)"

definition url_match :: "js \<Rightarrow> js \<Rightarrow> js \<Rightarrow> bool" where
  "url_match callerLinkedin callerWebsite candidate =
     ((truthy callerLinkedin
         \<and> strict_eq (stripUrl (field candidate ''linkedin_url'')) callerLinkedin)
      \<or> (truthy callerWebsite
         \<and> strict_eq (stripUrl (field candidate ''website_url'')) callerWebsite))"

definition first_match_or_first :: "js \<Rightarrow> js \<Rightarrow> js list \<Rightarrow> js" where
  "first_match_or_first callerLinkedin callerWebsite candidates =
     (case find (url_match callerLinkedin callerWebsite) candidates of
        Some c \<Rightarrow> c
      | None \<Rightarrow> hd candidates)"

text \<open>The console lines written while the filter callback looks at one candidate.\<close>

definition candidate_log :: "js \<Rightarrow> event list" where
  "candidate_log candidate =
     stripUrl_log (field candidate ''linkedin_url'') @ stripUrl_log (field candidate ''website_url'')"




text \<open>An organization search that finds nothing.\<close>

definition net_no_organizations :: transport where
  "net_no_organizations req =
     Inr \<lparr>status = 200, statusText = ''OK'', data = Obj [(''organizations'', Arr [])]\<rparr>"




section \<open>Properties of URL normalization\<close>

lemma lower_case_not_upper: "set lower_case \<inter> set upper_case = {}"
  by (simp add: upper_case_def lower_case_def)

lemma map_of_upper_lower:
  assumes "map_of (zip upper_case lower_case) c = Some d"
  shows "map_of (zip upper_case lower_case) d = None"
proof -
  from assms have "(c, d) \<in> set (zip upper_case lower_case)" by (rule map_of_SomeD)
  then have "d \<in> set lower_case" by (rule set_zip_rightD)
  with lower_case_not_upper have "d \<notin> set upper_case" by blast
  then have "d \<notin> fst ` set (zip upper_case lower_case)"
    by (auto dest: set_zip_leftD)
  then show ?thesis by (simp add: map_of_eq_None_iff)
qed

lemma lower_char_idem: "lower_char (lower_char c) = lower_char c"
  by (auto simp: lower_char_def dest: map_of_upper_lower split: option.splits)

lemma toLowerCase_idem: "toLowerCase (toLowerCase s) = toLowerCase s"
  by (simp add: toLowerCase_def lower_char_idem)

lemma lowered_toLowerCase: "lowered (toLowerCase s)"
  by (simp add: lowered_def toLowerCase_idem)

lemma lowered_drop: "lowered s \<Longrightarrow> lowered (drop n s)"
  unfolding lowered_def toLowerCase_def by (metis drop_map)

lemma lowered_butlast: "lowered s \<Longrightarrow> lowered (butlast s)"
  unfolding lowered_def toLowerCase_def by (metis map_butlast)

lemma lowered_strip_protocol: "lowered s \<Longrightarrow> lowered (strip_protocol s)"
  by (simp add: strip_protocol_def lowered_drop)

lemma lowered_strip_www: "lowered s \<Longrightarrow> lowered (strip_www s)"
  by (simp add: strip_www_def lowered_drop)

lemma lowered_strip_trailing_slash: "lowered s \<Longrightarrow> lowered (strip_trailing_slash s)"
  by (simp add: strip_trailing_slash_def lowered_butlast)

lemma lowered_strips:
  "lowered s \<Longrightarrow> lowered (strip_trailing_slash (strip_www (strip_protocol s)))"
  by (intro lowered_strip_trailing_slash lowered_strip_www lowered_strip_protocol)

lemma toLowerCase_Nil: "toLowerCase s = [] \<longleftrightarrow> s = []"
  by (simp add: toLowerCase_def)

lemma after_prefix_eq:
  "after_prefix p s = (if startsWith s p then Some (drop (length p) s) else None)"
  by (induction p s rule: after_prefix.induct) (auto simp: startsWith_def)

lemma last_slash_rev:
  "(case rev s of [] \<Rightarrow> s | c # cs \<Rightarrow> if c = CHR ''/'' then rev cs else s)
     = strip_trailing_slash s"
  by (cases s rule: rev_cases) (simp_all add: strip_trailing_slash_def)

lemma spec_normalize_url_eq:
  "spec_normalize_url s = strip_trailing_slash (strip_www (strip_protocol (toLowerCase s)))"
  by (simp add: spec_normalize_url_def Let_def after_prefix_eq last_slash_rev strip_www_def
      strip_protocol_def eval_nat_numeral)

text \<open>On a non-empty URL without upper-case letters the code computes the normalization of
  the specification.\<close>

lemma stripUrl_lowered:
  "s \<noteq> [] \<Longrightarrow> stripUrl (Str (toLowerCase s)) = Str (spec_normalize_url s)"
  using lowered_strips [OF lowered_toLowerCase, of s]
  by (simp add: toLowerCase_Nil spec_normalize_url_eq lowered_def)

text \<open>The two URLs of the specification's example.\<close>

lemma stripUrl_example:
  "stripUrl (Str ''https://www.Example.com/'') = Str ''example.com''
   \<and> stripUrl (Str ''example.com'') = Str ''example.com''"
  by (simp add: toLowerCase_def lower_char_def upper_case_def lower_case_def
      strip_trailing_slash_def strip_www_def strip_protocol_def startsWith_def)

text \<open>
  C8. The code strips the scheme and the \<open>www.\<close> prefix with case-sensitive patterns and
  lower-cases last. At the URL \<open>HTTP://Example.com\<close> the scheme is therefore not removed:
  the code returns \<open>http://example.com\<close>, where lower-casing the URL, stripping a leading
  \<open>http://\<close> or \<open>https://\<close>, stripping a leading \<open>www.\<close> and stripping one trailing slash
  gives \<open>example.com\<close>.
\<close>

theorem stripUrl_upper_case_scheme:
  "stripUrl (Str ''HTTP://Example.com'') = Str ''http://example.com''
   \<and> spec_normalize_url ''HTTP://Example.com'' = ''example.com''"
  by (simp add: spec_normalize_url_def toLowerCase_def lower_char_def upper_case_def
      lower_case_def strip_trailing_slash_def strip_www_def strip_protocol_def startsWith_def)


section \<open>Properties of range sanitization\<close>


lemma get_prop_set_prop:
  "get_prop (set_prop k v ps) k' = (if k' = k then v else get_prop ps k')"
  by (induction ps) (auto simp: get_prop_def)





section \<open>Properties of the query-parameter formatter\<close>

lemma get_prop_Nil: "get_prop [] k = Undefined"
  by (simp add: get_prop_def)

lemma get_prop_Cons: "get_prop ((k, v) # ps) k' = (if k' = k then v else get_prop ps k')"
  by (simp add: get_prop_def)

lemma push_item_other:
  "push_item K' item fp = Inr fp' \<Longrightarrow> K \<noteq> K' \<Longrightarrow> get_prop fp' K = get_prop fp K"
  by (auto simp: Let_def get_prop_set_prop split: js.splits if_splits)

lemma forEach_push_other:
  "forEach_push K' items fp = Inr fp' \<Longrightarrow> K \<noteq> K' \<Longrightarrow> get_prop fp' K = get_prop fp K"
proof (induction items arbitrary: fp)
  case Nil
  then show ?case by simp
next
  case (Cons item items)
  then obtain fp1 where s1: "push_item K' item fp = Inr fp1"
    and s2: "forEach_push K' items fp1 = Inr fp'"
    by (auto split: sum.splits)
  from Cons.IH [OF s2 Cons.prems(2)] push_item_other [OF s1 Cons.prems(2)]
  show ?case by simp
qed

lemma push_item_array:
  "get_prop fp K = Arr ys \<Longrightarrow> push_item K item fp = Inr (set_prop K (Arr (ys @ [item])) fp)"
  by simp

lemma push_item_falsy:
  "\<not> truthy (get_prop fp K) \<Longrightarrow>
     push_item K item fp = Inr (set_prop K (Arr [item]) (set_prop K (Arr []) fp))"
  by (simp add: get_prop_set_prop)

lemma forEach_push_array:
  "get_prop fp K = Arr ys \<Longrightarrow>
     \<exists>fp'. forEach_push K items fp = Inr fp' \<and> get_prop fp' K = Arr (ys @ items)"
proof (induction items arbitrary: fp ys)
  case Nil
  then show ?case by simp
next
  case (Cons item items)
  have "get_prop (set_prop K (Arr (ys @ [item])) fp) K = Arr (ys @ [item])"
    by (simp add: get_prop_set_prop)
  from Cons.IH [OF this] show ?case
    by (simp add: push_item_array [OF Cons.prems] del: push_item.simps)
qed

lemma forEach_push_falsy:
  "\<not> truthy (get_prop fp K) \<Longrightarrow>
     \<exists>fp'. forEach_push K items fp = Inr fp'
       \<and> get_prop fp' K = (if items = [] then get_prop fp K else Arr items)"
proof (cases items)
  case Nil
  then show ?thesis by simp
next
  case (Cons item rest)
  assume f: "\<not> truthy (get_prop fp K)"
  have "get_prop (set_prop K (Arr [item]) (set_prop K (Arr []) fp)) K = Arr [item]"
    by (simp add: get_prop_set_prop)
  from forEach_push_array [OF this, of rest] show ?thesis
    by (simp add: Cons push_item_falsy [OF f] del: push_item.simps)
qed

lemma format_nested_other:
  "K \<notin> set (param_keys (key, Obj sub)) \<Longrightarrow> get_prop (format_nested key sub fp) K = get_prop fp K"
  by (induction sub arbitrary: fp) (auto simp: get_prop_set_prop)

lemma nested_key_inject: "nested_key k s = nested_key k s' \<longleftrightarrow> s = s'"
  by (simp add: nested_key_def)

lemma format_nested_value:
  "distinct (map fst sub) \<Longrightarrow>
     get_prop (format_nested key sub fp) (nested_key key s) =
       (if get_prop sub s = Undefined \<or> get_prop sub s = Null
        then get_prop fp (nested_key key s) else get_prop sub s)"
proof (induction sub arbitrary: fp)
  case Nil
  then show ?case by (simp add: get_prop_Nil)
next
  case (Cons p sub)
  obtain s' v' where p: "p = (s', v')" by (cases p)
  from Cons.prems p have d: "distinct (map fst sub)" and n: "s' \<notin> fst ` set sub" by auto
  from n have "map_of sub s' = None"
    by (simp add: map_of_eq_None_iff)
  then have u: "get_prop sub s' = Undefined"
    by (simp add: get_prop_def)
  show ?case
    using u by (simp add: p Cons.IH [OF d] get_prop_set_prop get_prop_Cons nested_key_inject)
qed

lemma format_entry_other:
  "format_entry e fp = Inr fp' \<Longrightarrow> K \<notin> set (param_keys e) \<Longrightarrow> get_prop fp' K = get_prop fp K"
proof (induction e fp rule: format_entry.induct)
  case (3 key items fp)
  show ?case
  proof (cases "items = []")
    case True
    with 3 show ?thesis by simp
  next
    case False
    with 3 have "K \<noteq> key @ ''[]''" by auto
    from forEach_push_other [OF _ this] 3 show ?thesis by simp
  qed
next
  case (4 key sub fp)
  from format_nested_other [OF "4.prems"(2)] "4.prems"(1) show ?case by auto
qed (auto simp: get_prop_set_prop)

lemma format_entries_other:
  "format_entries es fp = Inr fp' \<Longrightarrow> \<forall>e\<in>set es. K \<notin> set (param_keys e) \<Longrightarrow>
     get_prop fp' K = get_prop fp K"
proof (induction es arbitrary: fp)
  case Nil
  then show ?case by simp
next
  case (Cons e es)
  from Cons.prems(1) obtain fp1 where s1: "format_entry e fp = Inr fp1"
    and s2: "format_entries es fp1 = Inr fp'"
    by (auto split: sum.splits)
  from Cons.prems(2) have r: "\<forall>e\<in>set es. K \<notin> set (param_keys e)"
    and h: "K \<notin> set (param_keys e)" by simp_all
  from Cons.IH [OF s2 r] format_entry_other [OF s1 h] show ?case by simp
qed

lemma format_entries_append:
  "format_entries (es @ es') fp =
     (case format_entries es fp of Inl e \<Rightarrow> Inl e | Inr fp' \<Rightarrow> format_entries es' fp')"
  by (induction es arbitrary: fp) (simp_all split: sum.splits)

lemma format_entries_drop_null:
  "format_entries (filter (\<lambda>(k, v). v \<noteq> Undefined \<and> v \<noteq> Null) es) fp = format_entries es fp"
proof (induction es arbitrary: fp)
  case Nil
  then show ?case by simp
next
  case (Cons e es)
  obtain k v where e: "e = (k, v)" by (cases e)
  show ?case by (cases v) (simp_all add: e Cons.IH split: sum.splits)
qed

lemma entry_split:
  assumes "distinct (map fst query)" "(k, v) \<in> set query"
  shows "\<exists>pre post. query = pre @ (k, v) # post
           \<and> (\<forall>e\<in>set pre. fst e \<noteq> k) \<and> (\<forall>e\<in>set post. fst e \<noteq> k)"
proof -
  from split_list [OF assms(2)] obtain pre post where q: "query = pre @ (k, v) # post"
    by blast
  from assms(1) have "k \<notin> fst ` set pre" "k \<notin> fst ` set post"
    unfolding q by simp_all
  then have "\<forall>e\<in>set pre. fst e \<noteq> k" "\<forall>e\<in>set post. fst e \<noteq> k"
    by blast+
  with q show ?thesis by blast
qed


text \<open>The formatter returns when the entries of the filter object are formatted to
  pairwise different query keys.\<close>

lemma keys_of_Nil: "keys_of [] = {}"
  by (simp add: keys_of_def)

lemma keys_of_Cons: "keys_of ((k, v) # ps) = insert k (keys_of ps)"
  by (simp add: keys_of_def)

lemma keys_set_prop: "keys_of (set_prop k v fp) = insert k (keys_of fp)"
proof (induction fp)
  case Nil
  show ?case by (simp add: keys_of_Nil keys_of_Cons)
next
  case (Cons p fp)
  obtain k' v' where p: "p = (k', v')" by (cases p)
  show ?case
  proof (cases "k' = k")
    case True
    then show ?thesis by (simp add: p keys_of_Cons)
  next
    case False
    then show ?thesis by (simp add: p keys_of_Cons Cons.IH insert_commute)
  qed
qed

lemma get_prop_fresh: "k \<notin> keys_of fp \<Longrightarrow> get_prop fp k = Undefined"
proof -
  assume "k \<notin> keys_of fp"
  then have "map_of fp k = None" by (simp add: map_of_eq_None_iff keys_of_def)
  then show ?thesis by (simp add: get_prop_def)
qed

lemma keys_push_item:
  "push_item K item fp = Inr fp' \<Longrightarrow> keys_of fp' = insert K (keys_of fp)"
  by (auto simp: Let_def keys_set_prop split: js.splits if_splits)

lemma keys_forEach_push:
  "forEach_push K items fp = Inr fp' \<Longrightarrow>
     keys_of fp' = keys_of fp \<union> (if items = [] then {} else {K})"
proof (induction items arbitrary: fp)
  case Nil
  then show ?case by simp
next
  case (Cons item items)
  then obtain fp1 where s1: "push_item K item fp = Inr fp1"
    and s2: "forEach_push K items fp1 = Inr fp'"
    by (auto split: sum.splits)
  from Cons.IH [OF s2] keys_push_item [OF s1] show ?case by auto
qed

lemma keys_format_nested:
  "keys_of (format_nested key sub fp) = keys_of fp \<union> set (param_keys (key, Obj sub))"
  by (induction sub arbitrary: fp) (auto simp: keys_set_prop)

lemma keys_format_entry:
  "format_entry e fp = Inr fp' \<Longrightarrow> keys_of fp' = keys_of fp \<union> set (param_keys e)"
proof (induction e fp rule: format_entry.induct)
  case (3 key items fp)
  from keys_forEach_push [of "key @ ''[]''" items fp fp'] 3 show ?case by simp
next
  case (4 key sub fp)
  with keys_format_nested [of key sub fp] show ?case by auto
qed (auto simp: keys_set_prop)

lemma format_entry_returns:
  "set (param_keys e) \<inter> keys_of fp = {} \<Longrightarrow> \<exists>fp'. format_entry e fp = Inr fp'"
proof (induction e fp rule: format_entry.induct)
  case (3 key items fp)
  show ?case
  proof (cases "items = []")
    case True
    then show ?thesis by simp
  next
    case False
    with 3 have "key @ ''[]'' \<notin> keys_of fp" by simp
    then have "\<not> truthy (get_prop fp (key @ ''[]''))" by (simp add: get_prop_fresh)
    from forEach_push_falsy [OF this, of items] show ?thesis by auto
  qed
qed simp_all

lemma format_entries_returns:
  "distinct (concat (map param_keys es)) \<Longrightarrow>
   set (concat (map param_keys es)) \<inter> keys_of fp = {} \<Longrightarrow>
     \<exists>fp'. format_entries es fp = Inr fp'"
proof (induction es arbitrary: fp)
  case Nil
  then show ?case by simp
next
  case (Cons e es)
  from Cons.prems(2) have "set (param_keys e) \<inter> keys_of fp = {}" by auto
  from format_entry_returns [OF this] obtain fp1 where s1: "format_entry e fp = Inr fp1"
    by blast
  from Cons.prems(1) have d: "distinct (concat (map param_keys es))"
    and x: "set (param_keys e) \<inter> set (concat (map param_keys es)) = {}"
    by simp_all
  from keys_format_entry [OF s1] Cons.prems(2) x
  have "set (concat (map param_keys es)) \<inter> keys_of fp1 = {}" by auto
  from Cons.IH [OF d this] s1 show ?case by simp
qed

lemma formatQueryParams_returns:
  "distinct (concat (map param_keys query)) \<Longrightarrow> \<exists>fp. formatQueryParams query = Inr fp"
  unfolding formatQueryParams_def by (rule format_entries_returns) (simp_all add: keys_of_Nil)

text \<open>
  C5, as the code has it. Let a filter object bind the key \<open>k\<close> to an array, let no other
  key of the object be formatted to the query key \<open>k[]\<close>, and let the formatter return (as
  it does when all query keys differ). Then the formatted parameters hold, under \<open>k[]\<close>,
  exactly the elements of the array in their order (none for the empty array).
\<close>

theorem formatQueryParams_array_entries:
  assumes "distinct (map fst query)"
    and "(k, Arr items) \<in> set query"
    and "\<forall>e\<in>set query. fst e \<noteq> k \<longrightarrow> k @ ''[]'' \<notin> set (param_keys e)"
    and "formatQueryParams query = Inr fp"
  shows "query_entries fp (k @ ''[]'') = items"
proof -
  from entry_split [OF assms(1,2)] obtain pre post where
    q: "query = pre @ (k, Arr items) # post"
    and pre: "\<forall>e\<in>set pre. fst e \<noteq> k" and post: "\<forall>e\<in>set post. fst e \<noteq> k"
    by blast
  from assms(3) q pre post have
    npre: "\<forall>e\<in>set pre. k @ ''[]'' \<notin> set (param_keys e)" and
    npost: "\<forall>e\<in>set post. k @ ''[]'' \<notin> set (param_keys e)"
    by auto
  from assms(4) q obtain fp1 where
    r1: "format_entries pre [] = Inr fp1" and
    r2: "format_entries ((k, Arr items) # post) fp1 = Inr fp"
    by (auto simp: formatQueryParams_def format_entries_append split: sum.splits)
  from format_entries_other [OF r1 npre] have u: "get_prop fp1 (k @ ''[]'') = Undefined"
    by (simp add: get_prop_Nil)
  then have "\<not> truthy (get_prop fp1 (k @ ''[]''))" by simp
  from forEach_push_falsy [OF this, of items] u obtain fp2 where
    r3: "forEach_push (k @ ''[]'') items fp1 = Inr fp2" and
    v: "get_prop fp2 (k @ ''[]'') = (if items = [] then Undefined else Arr items)"
    by auto
  from r2 r3 have r4: "format_entries post fp2 = Inr fp" by simp
  from format_entries_other [OF r4 npost] v
  have "get_prop fp (k @ ''[]'') = (if items = [] then Undefined else Arr items)" by simp
  then show ?thesis by (simp add: query_entries_def)
qed


text \<open>The theorem on a people-search filter with two titles.\<close>

theorem formatQueryParams_array_entries_witness:
  "distinct (map fst [(''person_titles'', Arr [Str ''cto'', Str ''ceo'']), (''page'', Num 1)])
   \<and> formatQueryParams [(''person_titles'', Arr [Str ''cto'', Str ''ceo'']), (''page'', Num 1)]
       = Inr [(''person_titles[]'', Arr [Str ''cto'', Str ''ceo'']), (''page'', Num 1)]
   \<and> query_entries [(''person_titles[]'', Arr [Str ''cto'', Str ''ceo'']), (''page'', Num 1)]
         (''person_titles'' @ ''[]'') = [Str ''cto'', Str ''ceo'']"
proof -
  let ?q = "[(''person_titles'', Arr [Str ''cto'', Str ''ceo'']), (''page'', Num 1)]"
  let ?fp = "[(''person_titles[]'', Arr [Str ''cto'', Str ''ceo'']), (''page'', Num 1)]"
  have h1: "distinct (map fst ?q)" by simp
  have h2: "(''person_titles'', Arr [Str ''cto'', Str ''ceo'']) \<in> set ?q" by simp
  have h3: "\<forall>e\<in>set ?q. fst e \<noteq> ''person_titles'' \<longrightarrow> ''person_titles'' @ ''[]'' \<notin> set (param_keys e)"
    by simp
  have h4: "formatQueryParams ?q = Inr ?fp"
    by (simp add: formatQueryParams_def get_prop_def)
  from formatQueryParams_array_entries [OF h1 h2 h3 h4] h1 h4 show ?thesis by blast
qed

text \<open>A later key that is itself named \<open>person_titles[]\<close> overwrites the array: the formatted
  parameters hold one entry under that key, and none of the two titles.\<close>

theorem formatQueryParams_array_collision:
  "formatQueryParams
     [(''person_titles'', Arr [Str ''cto'', Str ''ceo'']), (''person_titles[]'', Str ''x'')]
     = Inr [(''person_titles[]'', Str ''x'')]
   \<and> query_entries [(''person_titles[]'', Str ''x'')] ''person_titles[]'' = [Str ''x'']"
  by (simp add: formatQueryParams_def get_prop_def query_entries_def)

lemma format_nested_entry:
  assumes "distinct (map fst query)"
    and "(k, Obj sub) \<in> set query"
    and "distinct (map fst sub)"
    and "\<forall>e\<in>set query. fst e \<noteq> k \<longrightarrow> nested_key k s \<notin> set (param_keys e)"
    and "formatQueryParams query = Inr fp"
  shows "get_prop fp (nested_key k s) =
        (if get_prop sub s = Null then Undefined else get_prop sub s)"
proof -
  from entry_split [OF assms(1,2)] obtain pre post where
    q: "query = pre @ (k, Obj sub) # post"
    and pre: "\<forall>e\<in>set pre. fst e \<noteq> k" and post: "\<forall>e\<in>set post. fst e \<noteq> k"
    by blast
  let ?K = "nested_key k s"
  from assms(4) q pre post have
    npre: "\<forall>e\<in>set pre. ?K \<notin> set (param_keys e)" and
    npost: "\<forall>e\<in>set post. ?K \<notin> set (param_keys e)"
    by auto
  from assms(5) q obtain fp1 where
    r1: "format_entries pre [] = Inr fp1" and
    r2: "format_entries ((k, Obj sub) # post) fp1 = Inr fp"
    by (auto simp: formatQueryParams_def format_entries_append split: sum.splits)
  from format_entries_other [OF r1 npre] have u: "get_prop fp1 ?K = Undefined"
    by (simp add: get_prop_Nil)
  from r2 have r4: "format_entries post (format_nested k sub fp1) = Inr fp" by simp
  from format_entries_other [OF r4 npost] format_nested_value [OF assms(3), of k fp1 s] u
  show ?thesis by simp
qed

text \<open>
  C6, as the code has it. For every filter object, the top-level keys bound to \<open>null\<close> (or
  \<open>undefined\<close>) are dropped: the formatter does on the object what it does on the object
  without these keys, so they give no entry. Let the object bind the key \<open>k\<close> to a nested
  object, let no other key of the filter be formatted to the query key \<open>k[s]\<close>, and let the
  formatter return. Then the formatted parameters bind \<open>k[s]\<close> to the value of the sub-field
  \<open>s\<close> when that is present and not \<open>null\<close>, and do not bind \<open>k[s]\<close> otherwise.
\<close>

theorem formatQueryParams_nested_entries:
  "formatQueryParams (filter (\<lambda>(k, v). v \<noteq> Undefined \<and> v \<noteq> Null) query)
     = formatQueryParams query
   \<and> (distinct (map fst query) \<longrightarrow> (k, Obj sub) \<in> set query \<longrightarrow> distinct (map fst sub) \<longrightarrow>
      (\<forall>e\<in>set query. fst e \<noteq> k \<longrightarrow> nested_key k s \<notin> set (param_keys e)) \<longrightarrow>
      formatQueryParams query = Inr fp \<longrightarrow>
        get_prop fp (nested_key k s) =
          (if get_prop sub s = Null then Undefined else get_prop sub s))"
proof (intro conjI impI)
  show "formatQueryParams (filter (\<lambda>(k, v). v \<noteq> Undefined \<and> v \<noteq> Null) query)
     = formatQueryParams query"
    unfolding formatQueryParams_def by (rule format_entries_drop_null)
next
  assume "distinct (map fst query)" "(k, Obj sub) \<in> set query" "distinct (map fst sub)"
    "\<forall>e\<in>set query. fst e \<noteq> k \<longrightarrow> nested_key k s \<notin> set (param_keys e)"
    "formatQueryParams query = Inr fp"
  then show "get_prop fp (nested_key k s) =
          (if get_prop sub s = Null then Undefined else get_prop sub s)"
    by (rule format_nested_entry)
qed


text \<open>The theorem on an organization-search filter with a name bound to \<open>null\<close> and a revenue
  range that has no maximum, at the sub-field \<open>min\<close>.\<close>

theorem formatQueryParams_nested_entries_witness:
  "distinct (map fst [(''revenue_range'', Obj [(''min'', Num 300000), (''max'', Null)]), (''q_organization_name'', Null)])
   \<and> formatQueryParams [(''revenue_range'', Obj [(''min'', Num 300000), (''max'', Null)]), (''q_organization_name'', Null)]
       = Inr [(''revenue_range[min]'', Num 300000)]
   \<and> formatQueryParams [(''revenue_range'', Obj [(''min'', Num 300000), (''max'', Null)])]
       = Inr [(''revenue_range[min]'', Num 300000)]
   \<and> get_prop [(''revenue_range[min]'', Num 300000)] (nested_key ''revenue_range'' ''min'') = Num 300000"
proof -
  let ?sub = "[(''min'', Num 300000), (''max'', Null)]"
  let ?q = "[(''revenue_range'', Obj ?sub), (''q_organization_name'', Null)]"
  let ?fp = "[(''revenue_range[min]'', Num 300000)]"
  have h1: "distinct (map fst ?q)" by simp
  have h2: "(''revenue_range'', Obj ?sub) \<in> set ?q" by simp
  have h3: "distinct (map fst ?sub)" by simp
  have h4: "\<forall>e\<in>set ?q. fst e \<noteq> ''revenue_range'' \<longrightarrow>
              nested_key ''revenue_range'' ''min'' \<notin> set (param_keys e)"
    by simp
  have h5: "formatQueryParams ?q = Inr ?fp"
    by (simp add: formatQueryParams_def get_prop_def nested_key_def)
  note inst = formatQueryParams_nested_entries
    [where query = ?q and k = "''revenue_range''" and sub = ?sub and s = "''min''" and fp = ?fp]
  from inst have
    "formatQueryParams (filter (\<lambda>(k, v). v \<noteq> Undefined \<and> v \<noteq> Null) ?q) = formatQueryParams ?q"
    by blast
  with h5 have c1: "formatQueryParams [(''revenue_range'', Obj ?sub)] = Inr ?fp"
    by simp
  from inst h1 h2 h3 h4 h5 have
    "get_prop ?fp (nested_key ''revenue_range'' ''min'') =
        (if get_prop ?sub ''min'' = Null then Undefined else get_prop ?sub ''min'')"
    by blast
  then have c2: "get_prop ?fp (nested_key ''revenue_range'' ''min'') = Num 300000"
    by (simp add: get_prop_def)
  from h1 h5 c1 c2 show ?thesis by blast
qed

text \<open>A later key that is itself named \<open>revenue_range[min]\<close> overwrites the entry of the
  sub-field: the formatted parameters hold the value 2 under that key, not the minimum 1
  of the range.\<close>

theorem formatQueryParams_nested_collision:
  "formatQueryParams
     [(''revenue_range'', Obj [(''min'', Num 1)]), (''revenue_range[min]'', Num 2)]
     = Inr [(''revenue_range[min]'', Num 2)]
   \<and> get_prop [(''revenue_range[min]'', Num 2)] (nested_key ''revenue_range'' ''min'') \<noteq> Num 1"
  by (simp add: formatQueryParams_def get_prop_def nested_key_def)

section \<open>Properties of the client operations\<close>

lemmas io_defs = io_return_def io_throw_def io_lift_def io_emit_def io_bind_def io_catch_def
  http_send_def

lemma send_unwrap:
  "io_catch (io_bind (http_send net req) unwrap_response) log_error_null =
     (case net req of
        Inl error \<Rightarrow> (Inr Null, [Request req, ConsoleError [Val (Str (error_line error))]])
      | Inr r \<Rightarrow>
          if status r = 200 then (Inr (data r), [Request req])
          else (Inr Null, [Request req, ConsoleError [Val (Str (status_line r))]]))"
  by (simp add: io_defs unwrap_response_def log_error_null_def split: sum.splits)

lemma format_send_unwrap:
  "io_catch (io_bind (io_lift fmt) (\<lambda>fp. io_bind (http_send net (mk fp)) unwrap_response))
     log_error_null =
     (case fmt of
        Inl error \<Rightarrow> (Inr Null, [ConsoleError [Val (Str (error_line error))]])
      | Inr fp \<Rightarrow>
         (case net (mk fp) of
            Inl error \<Rightarrow> (Inr Null, [Request (mk fp), ConsoleError [Val (Str (error_line error))]])
          | Inr r \<Rightarrow>
              if status r = 200 then (Inr (data r), [Request (mk fp)])
              else (Inr Null, [Request (mk fp), ConsoleError [Val (Str (status_line r))]])))"
  by (simp add: io_defs unwrap_response_def log_error_null_def split: sum.splits)

lemma peopleEnrichment_cases:
  "peopleEnrichment net apiKey query =
     (case net (peopleEnrichment_request apiKey query) of
        Inl error \<Rightarrow>
          (Inr Null,
           [ConsoleLog [Val (Str ''url''), Val (Str (baseUrl @ ''/people/match''))],
            ConsoleLog [Val (Str ''query''), Val (Obj query)],
            Request (peopleEnrichment_request apiKey query),
            ConsoleError [Val (Str (error_line error))]])
      | Inr r \<Rightarrow>
          if status r = 200 then
            (Inr (data r),
             [ConsoleLog [Val (Str ''url''), Val (Str (baseUrl @ ''/people/match''))],
              ConsoleLog [Val (Str ''query''), Val (Obj query)],
              Request (peopleEnrichment_request apiKey query)])
          else
            (Inr Null,
             [ConsoleLog [Val (Str ''url''), Val (Str (baseUrl @ ''/people/match''))],
              ConsoleLog [Val (Str ''query''), Val (Obj query)],
              Request (peopleEnrichment_request apiKey query),
              ConsoleError [Val (Str (status_line r))]]))"
  by (simp add: peopleEnrichment_def io_defs unwrap_response_def log_error_null_def
      split: sum.splits)

lemma bulkPeopleEnrichment_cases:
  "bulkPeopleEnrichment net apiKey query =
     (case net (bulkPeopleEnrichment_request apiKey query) of
        Inl error \<Rightarrow> (Inr Null, [Request (bulkPeopleEnrichment_request apiKey query),
                                ConsoleError [Val (Str (error_line error))]])
      | Inr r \<Rightarrow>
          if status r = 200 then (Inr (data r), [Request (bulkPeopleEnrichment_request apiKey query)])
          else (Inr Null, [Request (bulkPeopleEnrichment_request apiKey query),
                           ConsoleError [Val (Str (status_line r))]]))"
  unfolding bulkPeopleEnrichment_def by (rule send_unwrap)

lemma organizationEnrichment_cases:
  "organizationEnrichment net apiKey query =
     (case net (organizationEnrichment_request apiKey query) of
        Inl error \<Rightarrow> (Inr Null, [Request (organizationEnrichment_request apiKey query),
                                ConsoleError [Val (Str (error_line error))]])
      | Inr r \<Rightarrow>
          if status r = 200 then (Inr (data r), [Request (organizationEnrichment_request apiKey query)])
          else (Inr Null, [Request (organizationEnrichment_request apiKey query),
                           ConsoleError [Val (Str (status_line r))]]))"
  unfolding organizationEnrichment_def by (rule send_unwrap)

lemma organizationJobPostings_cases:
  "organizationJobPostings net apiKey organizationId =
     (case to_string organizationId of
        Inl error \<Rightarrow> (Inr Null, [ConsoleError [Val (Str (error_line error))]])
      | Inr idText \<Rightarrow>
         (case net (organizationJobPostings_request apiKey idText) of
            Inl error \<Rightarrow> (Inr Null, [Request (organizationJobPostings_request apiKey idText),
                                    ConsoleError [Val (Str (error_line error))]])
          | Inr r \<Rightarrow>
              if status r = 200
              then (Inr (data r), [Request (organizationJobPostings_request apiKey idText)])
              else (Inr Null, [Request (organizationJobPostings_request apiKey idText),
                               ConsoleError [Val (Str (status_line r))]])))"
  unfolding organizationJobPostings_def by (rule format_send_unwrap)

lemma peopleSearch_cases:
  "peopleSearch net apiKey query =
     (case formatQueryParams query of
        Inl error \<Rightarrow> (Inr Null, [ConsoleError [Val (Str (error_line error))]])
      | Inr fp \<Rightarrow>
         (case net (peopleSearch_request apiKey fp) of
            Inl error \<Rightarrow> (Inr Null, [Request (peopleSearch_request apiKey fp),
                                    ConsoleError [Val (Str (error_line error))]])
          | Inr r \<Rightarrow>
              if status r = 200 then (Inr (data r), [Request (peopleSearch_request apiKey fp)])
              else (Inr Null, [Request (peopleSearch_request apiKey fp),
                               ConsoleError [Val (Str (status_line r))]])))"
  unfolding peopleSearch_def by (rule format_send_unwrap)

lemma organizationSearch_cases:
  "organizationSearch net apiKey query =
     (case formatQueryParams query of
        Inl error \<Rightarrow> (Inr Null, [ConsoleError [Val (Str (error_line error))]])
      | Inr fp \<Rightarrow>
         (case net (organizationSearch_request apiKey fp) of
            Inl error \<Rightarrow> (Inr Null, [Request (organizationSearch_request apiKey fp),
                                    ConsoleError [Val (Str (error_line error))]])
          | Inr r \<Rightarrow>
              if status r = 200 then (Inr (data r), [Request (organizationSearch_request apiKey fp)])
              else (Inr Null, [Request (organizationSearch_request apiKey fp),
                               ConsoleError [Val (Str (status_line r))]])))"
  unfolding organizationSearch_def by (rule format_send_unwrap)

lemma catch_total:
  "\<not> isl (fst (io_catch m (\<lambda>error. io_bind (io_emit (ev error)) (\<lambda>_. io_return (v error)))))"
  by (simp add: io_defs split: prod.splits sum.splits)

lemma catch_log_total: "\<not> isl (fst (io_catch m log_error_null))"
  unfolding log_error_null_def by (rule catch_total)

lemma getPersonEmail_total: "\<not> isl (fst (getPersonEmail net apiKey now apolloId))"
  unfolding getPersonEmail_def by (rule catch_total)

lemma employeesOfCompany_total: "\<not> isl (fst (employeesOfCompany net apiKey query))"
  unfolding employeesOfCompany_def by (rule catch_total)

lemma getPersonEmail_missing_id:
  "\<not> truthy apolloId \<Longrightarrow>
     getPersonEmail net apiKey now apolloId =
       (Inr Null, [ConsoleError [Val (Str ''Error getting person email: Apollo ID is required'')]])"
  by (simp add: getPersonEmail_def getPersonEmail_try_def io_defs)

lemma getPersonEmail_rejected:
  "truthy apolloId \<Longrightarrow> net (getPersonEmail_request apiKey now apolloId) = Inl error \<Longrightarrow>
     getPersonEmail net apiKey now apolloId =
       (Inr Null, [Request (getPersonEmail_request apiKey now apolloId),
                   ConsoleError [Val (Str (''Error getting person email: '' @ message error))]])"
  by (simp add: getPersonEmail_def getPersonEmail_try_def io_defs)

lemma employeesOfCompany_missing_company:
  "\<not> truthy (get_prop query ''company'') \<Longrightarrow>
     employeesOfCompany net apiKey query =
       (Inr Null, [ConsoleError [Val (Str ''Error finding employees: Company name is required'')]])"
  by (simp add: employeesOfCompany_def employeesOfCompany_try_def io_defs)

lemma employeesOfCompany_rejected:
  "truthy (get_prop query ''company'') \<Longrightarrow>
   net (company_search_request apiKey (get_prop query ''company'')) = Inl error \<Longrightarrow>
     employeesOfCompany net apiKey query =
       (Inr Null,
        stripUrl_log (get_prop query ''website_url'')
        @ stripUrl_log (get_prop query ''linkedin_url'')
        @ [Request (company_search_request apiKey (get_prop query ''company'')),
           ConsoleError [Val (Str (''Error finding employees: '' @ message error))]])"
  by (simp add: employeesOfCompany_def employeesOfCompany_try_def stripUrl_io_def io_defs)

lemma error_line_response:
  "error_line (AxiosError m (Some r)) =
     ''Error: '' @ show_int (status r) @ '' - '' @ (if statusText r \<noteq> [] then statusText r else m)"
  by (simp add: error_line_def)

lemma error_line_no_response: "error_line (AxiosError m None) = ''Error: undefined - '' @ m"
  by (simp add: error_line_def)

section \<open>Properties of the dispatcher\<close>

lemma tool_switch_eq:
  "tool_switch client tool args =
     (if details_missing tool args
      then io_throw (Error ''The 'details' array is required for bulk people enrichment'')
      else io_bind (client_call client tool args) (\<lambda>result. io_return (text_result result)))"
  by (simp add: tool_switch_def client_call_def details_missing_def io_bind_def io_throw_def)

lemma call_tool_total: "\<not> isl (fst (call_tool client request))"
  unfolding call_tool_def by (rule catch_total)

lemma call_tool_returns: "\<exists>result trace. call_tool client request = (Inr result, trace)"
proof -
  obtain r t where rt: "call_tool client request = (r, t)" by (cases "call_tool client request")
  with call_tool_total [of client request] obtain v where "r = Inr v" by (cases r) simp_all
  with rt show ?thesis by blast
qed

lemma call_tool_caught:
  "call_tool_try client request = (Inl error, trace) \<longrightarrow>
     call_tool client request =
       (Inr \<lparr>content = [\<lparr>content_type = ''text'',
                         content_text = Str (''Apollo.io API error: '' @ message error)\<rparr>],
             isError = Some True\<rparr>,
        trace @ [ConsoleError [Val (Str (''Error executing tool '' @ name request @ '':'')),
                               Thrown error]])"
  by (simp add: call_tool_def error_result_def io_defs)

lemma call_tool_served:
  "call_tool_try client request = (Inr result, trace) \<longrightarrow>
     call_tool client request = (Inr result, trace)"
  by (simp add: call_tool_def io_defs)

lemma call_tool_try_validation:
  "details_missing (name request) (request_args request) \<longrightarrow>
     call_tool_try client request =
       (Inl (Error ''The 'details' array is required for bulk people enrichment''), [])"
  by (auto simp: call_tool_try_def tool_switch_eq details_missing_def sanitize_args_def io_defs)

lemma details_missing_sanitize:
  "details_missing tool (sanitize_args tool args) = details_missing tool args"
  by (simp add: details_missing_def sanitize_args_def)

lemma call_tool_try_upstream:
  "\<not> details_missing (name request) (request_args request) \<longrightarrow>
   client_call client (name request) (sanitize_args (name request) (request_args request))
     = (Inl error, trace) \<longrightarrow>
   call_tool_try client request = (Inl error, trace)"
  by (simp add: call_tool_try_def tool_switch_eq details_missing_sanitize io_defs)

lemma call_tool_try_result:
  "\<not> details_missing (name request) (request_args request) \<longrightarrow>
   client_call client (name request) (sanitize_args (name request) (request_args request))
     = (Inr result, trace) \<longrightarrow>
   call_tool_try client request = (Inr (text_result result), trace)"
  by (simp add: call_tool_try_def tool_switch_eq details_missing_sanitize io_defs)

text \<open>
  C3. The handler always returns a response: no exception leaves it. Whatever the \<open>try\<close>
  block throws is turned into a response with \<open>isError\<close> set whose text is
  \<open>Apollo.io API error: \<close> followed by the exception's message. The \<open>try\<close> block throws
  the validation error of \<open>bulk_people_enrichment\<close> when the \<open>details\<close> array is missing, and
  otherwise whatever the client call of the tool throws.
\<close>

theorem call_tool_catches_every_exception:
  "(\<exists>result trace. call_tool client request = (Inr result, trace))
   \<and> (call_tool_try client request = (Inl error, trace) \<longrightarrow>
        call_tool client request =
          (Inr \<lparr>content = [\<lparr>content_type = ''text'',
                            content_text = Str (''Apollo.io API error: '' @ message error)\<rparr>],
                isError = Some True\<rparr>,
           trace @ [ConsoleError [Val (Str (''Error executing tool '' @ name request @ '':'')),
                                  Thrown error]]))
   \<and> (details_missing (name request) (request_args request) \<longrightarrow>
        call_tool_try client request =
          (Inl (Error ''The 'details' array is required for bulk people enrichment''), []))
   \<and> (\<not> details_missing (name request) (request_args request) \<longrightarrow>
      client_call client (name request) (sanitize_args (name request) (request_args request))
        = (Inl error, trace) \<longrightarrow>
      call_tool_try client request = (Inl error, trace))"
  using call_tool_returns call_tool_caught call_tool_try_validation call_tool_try_upstream
  by blast

text \<open>The theorem on a \<open>people_search\<close> call whose client method throws.\<close>

theorem call_tool_catches_every_exception_witness:
  "call_tool throwing_client \<lparr>name = ''people_search'', arguments = None\<rparr> =
     (Inr \<lparr>content = [\<lparr>content_type = ''text'',
                       content_text = Str ''Apollo.io API error: socket hang up''\<rparr>],
           isError = Some True\<rparr>,
      [ConsoleError [Val (Str ''Error executing tool people_search:''),
                     Thrown (Error ''socket hang up'')]])"
proof -
  let ?request = "\<lparr>name = ''people_search'', arguments = None\<rparr>"
  have h1: "\<not> details_missing (name ?request) (request_args ?request)"
    by (simp add: details_missing_def)
  have h2: "client_call throwing_client (name ?request)
      (sanitize_args (name ?request) (request_args ?request)) = (Inl (Error ''socket hang up''), [])"
    by (simp add: client_call_def throwing_client_def ApolloClient_def io_throw_def)
  note inst = call_tool_catches_every_exception
    [of throwing_client ?request "Error ''socket hang up''" "[]"]
  from inst h1 h2 have "call_tool_try throwing_client ?request = (Inl (Error ''socket hang up''), [])"
    by blast
  with inst show ?thesis by simp
qed

lemma call_tool_unregistered:
  "tool \<notin> set registered_tools \<Longrightarrow>
     call_tool client \<lparr>name = tool, arguments = args\<rparr> =
       (Inr (error_result (McpError MethodNotFound (''Unknown tool: '' @ tool))),
        [ConsoleError [Val (Str (''Error executing tool '' @ tool @ '':'')),
                       Thrown (McpError MethodNotFound (''Unknown tool: '' @ tool))]])"
  by (simp add: call_tool_def call_tool_try_def tool_switch_def registered_tools_def io_defs)

text \<open>
  C2. The \<open>McpError\<close> thrown for an unknown tool name is thrown inside the \<open>try\<close> block, so
  the handler's own \<open>catch\<close> turns it into an error-flagged text response: the call of the
  unregistered tool \<open>delete_contact\<close> returns such a response, whatever the client is, and
  does not reject with the protocol's method-not-found error.
\<close>

theorem call_tool_unknown_tool:
  "call_tool client \<lparr>name = ''delete_contact'', arguments = None\<rparr> =
     (Inr \<lparr>content = [\<lparr>content_type = ''text'',
              content_text = Str ''Apollo.io API error: MCP error -32601: Unknown tool: delete_contact''\<rparr>],
           isError = Some True\<rparr>,
      [ConsoleError [Val (Str ''Error executing tool delete_contact:''),
                     Thrown (McpError (- 32601) ''Unknown tool: delete_contact'')]])"
proof -
  have "''delete_contact'' \<notin> set registered_tools"
    by (simp add: registered_tools_def)
  from call_tool_unregistered [OF this, of client None] show ?thesis
    by (simp add: error_result_def MethodNotFound_def show_int_def digits.simps)
qed


section \<open>Failures of the client at the dispatcher\<close>

lemma peopleEnrichment_total: "\<not> isl (fst (peopleEnrichment net apiKey query))"
  unfolding peopleEnrichment_def by (rule catch_log_total)

lemma bulkPeopleEnrichment_total: "\<not> isl (fst (bulkPeopleEnrichment net apiKey query))"
  unfolding bulkPeopleEnrichment_def by (rule catch_log_total)

lemma organizationEnrichment_total: "\<not> isl (fst (organizationEnrichment net apiKey query))"
  unfolding organizationEnrichment_def by (rule catch_log_total)

lemma peopleSearch_total: "\<not> isl (fst (peopleSearch net apiKey query))"
  unfolding peopleSearch_def by (rule catch_log_total)

lemma organizationSearch_total: "\<not> isl (fst (organizationSearch net apiKey query))"
  unfolding organizationSearch_def by (rule catch_log_total)

lemma organizationJobPostings_total: "\<not> isl (fst (organizationJobPostings net apiKey organizationId))"
  unfolding organizationJobPostings_def by (rule catch_log_total)

lemma peopleEnrichment_result:
  "fst (peopleEnrichment net apiKey query) =
     (case net (peopleEnrichment_request apiKey query) of
        Inl error \<Rightarrow> Inr Null
      | Inr r \<Rightarrow> if status r = 200 then Inr (data r) else Inr Null)"
  by (simp add: peopleEnrichment_cases split: sum.splits)

lemma bulkPeopleEnrichment_result:
  "fst (bulkPeopleEnrichment net apiKey query) =
     (case net (bulkPeopleEnrichment_request apiKey query) of
        Inl error \<Rightarrow> Inr Null
      | Inr r \<Rightarrow> if status r = 200 then Inr (data r) else Inr Null)"
  by (simp add: bulkPeopleEnrichment_cases split: sum.splits)

lemma organizationEnrichment_result:
  "fst (organizationEnrichment net apiKey query) =
     (case net (organizationEnrichment_request apiKey query) of
        Inl error \<Rightarrow> Inr Null
      | Inr r \<Rightarrow> if status r = 200 then Inr (data r) else Inr Null)"
  by (simp add: organizationEnrichment_cases split: sum.splits)

lemma organizationJobPostings_result:
  "fst (organizationJobPostings net apiKey organizationId) =
     (case to_string organizationId of
        Inl error \<Rightarrow> Inr Null
      | Inr idText \<Rightarrow>
          (case net (organizationJobPostings_request apiKey idText) of
             Inl error \<Rightarrow> Inr Null
           | Inr r \<Rightarrow> if status r = 200 then Inr (data r) else Inr Null))"
  by (simp add: organizationJobPostings_cases split: sum.splits)

lemma peopleSearch_result:
  "fst (peopleSearch net apiKey query) =
     (case formatQueryParams query of
        Inl error \<Rightarrow> Inr Null
      | Inr fp \<Rightarrow>
          (case net (peopleSearch_request apiKey fp) of
             Inl error \<Rightarrow> Inr Null
           | Inr r \<Rightarrow> if status r = 200 then Inr (data r) else Inr Null))"
  by (simp add: peopleSearch_cases split: sum.splits)

lemma organizationSearch_result:
  "fst (organizationSearch net apiKey query) =
     (case formatQueryParams query of
        Inl error \<Rightarrow> Inr Null
      | Inr fp \<Rightarrow>
          (case net (organizationSearch_request apiKey fp) of
             Inl error \<Rightarrow> Inr Null
           | Inr r \<Rightarrow> if status r = 200 then Inr (data r) else Inr Null))"
  by (simp add: organizationSearch_cases split: sum.splits)

lemma getPersonEmail_caught:
  "(getPersonEmail_try net apiKey now apolloId = (Inl e, trace) \<longrightarrow>
      getPersonEmail net apiKey now apolloId =
        (Inr Null,
         trace @ [ConsoleError [Val (Str (''Error getting person email: '' @ message e))]]))"
  by (simp add: getPersonEmail_def io_defs)

lemma getPersonEmail_try_missing_id:
  "(\<not> truthy apolloId \<longrightarrow>
      getPersonEmail_try net apiKey now apolloId = (Inl (Error ''Apollo ID is required''), []))"
  by (simp add: getPersonEmail_try_def io_defs)

lemma getPersonEmail_try_rejected:
  "(truthy apolloId \<longrightarrow> net (getPersonEmail_request apiKey now apolloId) = Inl e \<longrightarrow>
      getPersonEmail_try net apiKey now apolloId =
        (Inl e, [Request (getPersonEmail_request apiKey now apolloId)]))"
  by (simp add: getPersonEmail_try_def io_defs)

lemma employeesOfCompany_caught:
  "(employeesOfCompany_try net apiKey query = (Inl e, trace) \<longrightarrow>
      employeesOfCompany net apiKey query =
        (Inr Null,
         trace @ [ConsoleError [Val (Str (''Error finding employees: '' @ message e))]]))"
  by (simp add: employeesOfCompany_def io_defs)

lemma employeesOfCompany_try_missing_company:
  "(\<not> truthy (get_prop query ''company'') \<longrightarrow>
      employeesOfCompany_try net apiKey query = (Inl (Error ''Company name is required''), []))"
  by (simp add: employeesOfCompany_try_def io_defs)

lemma employeesOfCompany_try_rejected:
  "(truthy (get_prop query ''company'') \<longrightarrow>
    net (company_search_request apiKey (get_prop query ''company'')) = Inl e \<longrightarrow>
      employeesOfCompany_try net apiKey query =
        (Inl e,
         stripUrl_log (get_prop query ''website_url'')
         @ stripUrl_log (get_prop query ''linkedin_url'')
         @ [Request (company_search_request apiKey (get_prop query ''company''))]))"
  by (simp add: employeesOfCompany_try_def stripUrl_io_def io_defs)

lemma call_tool_null_payload:
  "(\<not> details_missing (name request) (request_args request) \<longrightarrow>
    fst (client_call client (name request) (sanitize_args (name request) (request_args request)))
      = Inr Null \<longrightarrow>
      fst (call_tool client request) =
        Inr \<lparr>content = [\<lparr>content_type = ''text'', content_text = Str ''null''\<rparr>],
             isError = None\<rparr>)"
  proof (intro impI)
  assume v: "\<not> details_missing (name request) (request_args request)"
    and r: "fst (client_call client (name request)
                  (sanitize_args (name request) (request_args request))) = Inr Null"
  obtain trace where "client_call client (name request)
      (sanitize_args (name request) (request_args request)) = (Inr Null, trace)"
    using r by (cases "client_call client (name request)
      (sanitize_args (name request) (request_args request))") simp
  with v call_tool_try_result [of request client Null trace]
  have "call_tool_try client request = (Inr (text_result Null), trace)" by blast
  with call_tool_served [of client request "text_result Null" trace]
  show "fst (call_tool client request) =
        Inr \<lparr>content = [\<lparr>content_type = ''text'', content_text = Str ''null''\<rparr>],
             isError = None\<rparr>"
    by (simp add: text_result_def JSON_stringify_def)
qed

lemma client_call_ApolloClient:
  "client_call (ApolloClient net apiKey now) ''bulk_people_enrichment'' args = bulkPeopleEnrichment net apiKey args"
  "client_call (ApolloClient net apiKey now) ''people_enrichment'' args = peopleEnrichment net apiKey args"
  "client_call (ApolloClient net apiKey now) ''organization_enrichment'' args = organizationEnrichment net apiKey args"
  "client_call (ApolloClient net apiKey now) ''people_search'' args = peopleSearch net apiKey args"
  "client_call (ApolloClient net apiKey now) ''organization_search'' args = organizationSearch net apiKey args"
  "client_call (ApolloClient net apiKey now) ''organization_job_postings'' args = organizationJobPostings net apiKey (get_prop args ''organization_id'')"
  "client_call (ApolloClient net apiKey now) ''get_person_email'' args = getPersonEmail net apiKey now (get_prop args ''apollo_id'')"
  "client_call (ApolloClient net apiKey now) ''employees_of_company'' args = employeesOfCompany net apiKey args"
  by (simp_all add: client_call_def ApolloClient_def)

section \<open>Properties of employeesOfCompany\<close>

lemma requests_of_append: "requests_of (a @ b) = requests_of a @ requests_of b"
  by (induction a rule: requests_of.induct) simp_all

lemma requests_of_stripUrl_log: "requests_of (stripUrl_log v) = []"
  by (cases v) (simp_all add: stripUrl_log_def)

lemma requests_of_candidate_logs: "requests_of (concat (map candidate_log cs)) = []"
  by (induction cs)
    (simp_all add: candidate_log_def requests_of_append requests_of_stripUrl_log)

lemma choose_company_empty:
  "choose_company sL sW (Arr []) = (Inl (Error ''No organizations found''), [])"
  by (simp add: choose_company_def io_defs)

text \<open>
  C9. When the organization search answers with an empty list of organizations, the \<open>try\<close>
  block of \<open>employeesOfCompany\<close> throws \<open>No organizations found\<close> right after that request;
  the operation logs the message and returns \<open>null\<close>, and the organization search is the
  only request it issues.
\<close>

theorem employeesOfCompany_no_organizations:
  assumes "truthy (get_prop query ''company'')"
    and "net (company_search_request apiKey (get_prop query ''company'')) = Inr response"
    and "truthy (data response)"
    and "read_prop (data response) ''organizations'' = Inr (Arr [])"
  shows "employeesOfCompany_try net apiKey query =
           (Inl (Error ''No organizations found''),
            stripUrl_log (get_prop query ''website_url'')
            @ stripUrl_log (get_prop query ''linkedin_url'')
            @ [Request (company_search_request apiKey (get_prop query ''company''))])
     \<and> employeesOfCompany net apiKey query =
           (Inr Null,
            stripUrl_log (get_prop query ''website_url'')
            @ stripUrl_log (get_prop query ''linkedin_url'')
            @ [Request (company_search_request apiKey (get_prop query ''company'')),
               ConsoleError [Val (Str ''Error finding employees: No organizations found'')]])
     \<and> requests_of (snd (employeesOfCompany net apiKey query)) =
           [company_search_request apiKey (get_prop query ''company'')]
     \<and> (\<forall>payload. people_search_request apiKey payload
            \<notin> set (requests_of (snd (employeesOfCompany net apiKey query))))"
proof -
  have t: "employeesOfCompany_try net apiKey query =
           (Inl (Error ''No organizations found''),
            stripUrl_log (get_prop query ''website_url'')
            @ stripUrl_log (get_prop query ''linkedin_url'')
            @ [Request (company_search_request apiKey (get_prop query ''company''))])"
    using assms
    by (simp add: employeesOfCompany_try_def choose_company_empty stripUrl_io_def io_defs)
  then have r: "employeesOfCompany net apiKey query =
           (Inr Null,
            stripUrl_log (get_prop query ''website_url'')
            @ stripUrl_log (get_prop query ''linkedin_url'')
            @ [Request (company_search_request apiKey (get_prop query ''company'')),
               ConsoleError [Val (Str ''Error finding employees: No organizations found'')]])"
    by (simp add: employeesOfCompany_def io_defs)
  then have q: "requests_of (snd (employeesOfCompany net apiKey query)) =
           [company_search_request apiKey (get_prop query ''company'')]"
    by (simp add: requests_of_append requests_of_stripUrl_log)
  then have "\<forall>payload. people_search_request apiKey payload
            \<notin> set (requests_of (snd (employeesOfCompany net apiKey query)))"
    by (simp add: company_search_request_def people_search_request_def)
  with t r q show ?thesis by blast
qed

lemma strict_eq_truthy: "strict_eq a b \<Longrightarrow> truthy a = truthy b"
  by (cases a) simp_all

lemma url_matches_eq:
  "c \<noteq> Null \<Longrightarrow> c \<noteq> Undefined \<Longrightarrow>
     url_matches sL sW c = (Inr (url_match sL sW c), candidate_log c)"
  by (cases c) (auto simp: url_matches_def url_match_def candidate_log_def field_def
      stripUrl_io_def io_defs dest: strict_eq_truthy)

lemma filter_io_pure:
  "\<forall>x\<in>set xs. f x = (Inr (P x), L x) \<Longrightarrow>
     filter_io f xs = (Inr (filter P xs), concat (map L xs))"
  by (induction xs) (simp_all add: io_defs)

lemma first_of_filter:
  "(case filter P xs of c # cs \<Rightarrow> c | [] \<Rightarrow> d) = (case find P xs of Some c \<Rightarrow> c | None \<Rightarrow> d)"
  by (induction xs) simp_all

lemma choose_company_eq:
  assumes "orgs \<noteq> []" and "\<forall>c\<in>set orgs. c \<noteq> Null \<and> c \<noteq> Undefined"
  shows "choose_company sL sW (Arr orgs) =
           (Inr (first_match_or_first sL sW orgs), concat (map candidate_log orgs))"
proof -
  from assms(2) have
    "\<forall>c\<in>set orgs. url_matches sL sW c = (Inr (url_match sL sW c), candidate_log c)"
    by (simp add: url_matches_eq)
  then have f: "filter_io (url_matches sL sW) orgs =
      (Inr (filter (url_match sL sW) orgs), concat (map candidate_log orgs))"
    by (rule filter_io_pure)
  from assms(1) obtain org rest where o: "orgs = org # rest" by (cases orgs) simp_all
  then have h: "(case orgs of org # rest \<Rightarrow> org | [] \<Rightarrow> Undefined) = hd orgs" by simp
  have "(case filter (url_match sL sW) orgs of c # cs \<Rightarrow> c
          | [] \<Rightarrow> (case orgs of org # rest \<Rightarrow> org | [] \<Rightarrow> Undefined))
        = first_match_or_first sL sW orgs"
    unfolding first_match_or_first_def h by (rule first_of_filter)
  with assms(1) f show ?thesis
    by (simp add: choose_company_def io_defs)
qed



lemma url_matches_null:
  "c = Null \<or> c = Undefined \<Longrightarrow> \<exists>e. url_matches sL sW c = (Inl e, [])"
  by (auto simp: url_matches_def io_defs)

lemma filter_io_trace:
  "filter_io (url_matches sL sW) cs = (r, t) \<Longrightarrow>
     requests_of t = [] \<and> (\<not> isl r \<longrightarrow> (\<forall>c\<in>set cs. c \<noteq> Null \<and> c \<noteq> Undefined))"
proof (induction cs arbitrary: r t)
  case Nil
  then show ?case by (simp add: io_defs)
next
  case (Cons c cs)
  obtain r' t' where rest: "filter_io (url_matches sL sW) cs = (r', t')"
    by (cases "filter_io (url_matches sL sW) cs")
  note ih = Cons.IH [OF rest]
  show ?case
  proof (cases "c = Null \<or> c = Undefined")
    case True
    from url_matches_null [OF this, of sL sW] obtain e where
      "url_matches sL sW c = (Inl e, [])" by blast
    with Cons.prems show ?thesis by (auto simp: io_defs)
  next
    case False
    then have m: "url_matches sL sW c = (Inr (url_match sL sW c), candidate_log c)"
      by (simp add: url_matches_eq)
    have l: "requests_of (candidate_log c) = []"
      by (simp add: candidate_log_def requests_of_append requests_of_stripUrl_log)
    from Cons.prems m rest ih l False show ?thesis
      by (cases r') (auto simp: io_defs requests_of_append)
  qed
qed

lemma choose_company_cases:
  "(\<exists>e t. choose_company sL sW (Arr orgs) = (Inl e, t) \<and> requests_of t = [])
   \<or> (\<exists>t. choose_company sL sW (Arr orgs) = (Inr (first_match_or_first sL sW orgs), t)
          \<and> requests_of t = [])"
proof (cases "orgs = []")
  case True
  then show ?thesis by (simp add: choose_company_empty)
next
  case False
  obtain r t where f: "filter_io (url_matches sL sW) orgs = (r, t)"
    by (cases "filter_io (url_matches sL sW) orgs")
  note tr = filter_io_trace [OF f]
  show ?thesis
  proof (cases r)
    case (Inl e)
    with f False tr have "choose_company sL sW (Arr orgs) = (Inl e, t)"
      by (simp add: choose_company_def io_defs)
    with tr show ?thesis by blast
  next
    case (Inr ys)
    with tr have "\<forall>c\<in>set orgs. c \<noteq> Null \<and> c \<noteq> Undefined" by simp
    from choose_company_eq [OF False this, of sL sW] requests_of_candidate_logs [of orgs]
    show ?thesis by blast
  qed
qed




text \<open>The theorem for C9 on an organization search that finds nothing.\<close>

theorem employeesOfCompany_no_organizations_witness:
  "employeesOfCompany_try net_no_organizations ''key'' [(''company'', Str ''Acme'')] =
     (Inl (Error ''No organizations found''),
      [Request (company_search_request ''key'' (Str ''Acme''))])
   \<and> employeesOfCompany net_no_organizations ''key'' [(''company'', Str ''Acme'')] =
     (Inr Null,
      [Request (company_search_request ''key'' (Str ''Acme'')),
       ConsoleError [Val (Str ''Error finding employees: No organizations found'')]])
   \<and> requests_of (snd (employeesOfCompany net_no_organizations ''key'' [(''company'', Str ''Acme'')]))
       = [company_search_request ''key'' (Str ''Acme'')]
   \<and> (\<forall>payload. people_search_request ''key'' payload
          \<notin> set (requests_of (snd (employeesOfCompany net_no_organizations ''key''
                 [(''company'', Str ''Acme'')]))))"
proof -
  let ?query = "[(''company'', Str ''Acme'')]"
  let ?response = "\<lparr>status = 200, statusText = ''OK'', data = Obj [(''organizations'', Arr [])]\<rparr>"
  have c: "get_prop ?query ''company'' = Str ''Acme''" by (simp add: get_prop_def)
  have u: "stripUrl_log (get_prop ?query ''website_url'') = []"
    "stripUrl_log (get_prop ?query ''linkedin_url'') = []"
    by (simp_all add: get_prop_def stripUrl_log_def)
  have h1: "truthy (get_prop ?query ''company'')" by (simp add: c)
  have h2: "net_no_organizations (company_search_request ''key'' (get_prop ?query ''company''))
      = Inr ?response"
    by (simp add: net_no_organizations_def)
  have h3: "truthy (data ?response)" by simp
  have h4: "read_prop (data ?response) ''organizations'' = Inr (Arr [])"
    by (simp add: get_prop_def)
  from employeesOfCompany_no_organizations
    [where net = net_no_organizations and response = ?response, OF h1 h2 h3 h4]
  show ?thesis
    unfolding u c append_Nil by blast
qed



section \<open>Failures of the client operations\<close>

lemma choose_company_requests: "requests_of (snd (choose_company sL sW v)) = []"
proof (cases v)
  case (Arr orgs)
  from choose_company_cases [of sL sW orgs] show ?thesis unfolding Arr by auto
qed (simp_all add: choose_company_def io_defs)

lemma getPersonEmail_try_request_rejected:
  assumes "req \<in> set (requests_of (snd (getPersonEmail_try net apiKey now apolloId)))"
    and "net req = Inl e"
  shows "fst (getPersonEmail_try net apiKey now apolloId) = Inl e"
proof (cases "truthy apolloId")
  case False
  with assms(1) show ?thesis by (simp add: getPersonEmail_try_def io_defs)
next
  case True
  show ?thesis
  proof (cases "net (getPersonEmail_request apiKey now apolloId)")
    case (Inl e')
    with True assms show ?thesis by (simp add: getPersonEmail_try_def io_defs)
  next
    case (Inr response)
    with True assms show ?thesis
      by (auto simp: getPersonEmail_try_def io_defs split: if_splits)
  qed
qed

lemma employeesOfCompany_try_request_rejected:
  assumes "req \<in> set (requests_of (snd (employeesOfCompany_try net apiKey query)))"
    and "net req = Inl e"
  shows "fst (employeesOfCompany_try net apiKey query) = Inl e"
proof (cases "truthy (get_prop query ''company'')")
  case False
  with assms(1) show ?thesis by (simp add: employeesOfCompany_try_def io_defs)
next
  case company: True
  let ?sL = "stripUrl (get_prop query ''linkedin_url'')"
  let ?sW = "stripUrl (get_prop query ''website_url'')"
  let ?creq = "company_search_request apiKey (get_prop query ''company'')"
  note rq = requests_of_append requests_of_stripUrl_log
  show ?thesis
  proof (cases "net ?creq")
    case (Inl e')
    with company assms show ?thesis
      by (simp add: employeesOfCompany_try_def stripUrl_io_def io_defs rq)
  next
    case (Inr response)
    have only_first: "requests_of (snd (employeesOfCompany_try net apiKey query)) = [?creq] \<Longrightarrow> False"
      using assms Inr by simp
    show ?thesis
    proof (cases "truthy (data response)")
      case False
      with company Inr have "requests_of (snd (employeesOfCompany_try net apiKey query)) = [?creq]"
        by (simp add: employeesOfCompany_try_def stripUrl_io_def io_defs rq)
      with only_first show ?thesis by blast
    next
      case data: True
      show ?thesis
      proof (cases "read_prop (data response) ''organizations''")
        case (Inl e')
        with company Inr data
        have "requests_of (snd (employeesOfCompany_try net apiKey query)) = [?creq]"
          by (simp add: employeesOfCompany_try_def stripUrl_io_def io_defs rq)
        with only_first show ?thesis by blast
      next
        case orgs: (Inr organizations)
        obtain c t where ch: "choose_company ?sL ?sW organizations = (c, t)"
          by (cases "choose_company ?sL ?sW organizations")
        with choose_company_requests [of ?sL ?sW organizations] have t: "requests_of t = []"
          by simp
        show ?thesis
        proof (cases c)
          case (Inl e')
          with company Inr data orgs ch t
          have "requests_of (snd (employeesOfCompany_try net apiKey query)) = [?creq]"
            by (simp add: employeesOfCompany_try_def stripUrl_io_def io_defs rq)
          with only_first show ?thesis by blast
        next
          case chosen: (Inr companyObj)
          show ?thesis
          proof (cases "read_prop companyObj ''id''")
            case (Inl e')
            with company Inr data orgs ch t chosen
            have "requests_of (snd (employeesOfCompany_try net apiKey query)) = [?creq]"
              by (simp add: employeesOfCompany_try_def stripUrl_io_def io_defs rq)
            with only_first show ?thesis by blast
          next
            case cid: (Inr companyId)
            show ?thesis
            proof (cases "truthy companyId")
              case False
              with company Inr data orgs ch t chosen cid
              have "requests_of (snd (employeesOfCompany_try net apiKey query)) = [?creq]"
                by (simp add: employeesOfCompany_try_def stripUrl_io_def io_defs rq)
              with only_first show ?thesis by blast
            next
              case tid: True
              show ?thesis
              proof (cases "people_search_payload companyId query")
                case (Inl e')
                with company Inr data orgs ch t chosen cid tid
                have "requests_of (snd (employeesOfCompany_try net apiKey query)) = [?creq]"
                  by (simp add: employeesOfCompany_try_def stripUrl_io_def io_defs rq)
                with only_first show ?thesis by blast
              next
                case pl: (Inr payload)
                let ?preq = "people_search_request apiKey payload"
                show ?thesis
                proof (cases "net ?preq")
                  case (Inl e')
                  with company Inr data orgs ch t chosen cid tid pl
                  have "fst (employeesOfCompany_try net apiKey query) = Inl e'"
                    and "requests_of (snd (employeesOfCompany_try net apiKey query)) = [?creq, ?preq]"
                    by (simp_all add: employeesOfCompany_try_def stripUrl_io_def io_defs rq)
                  with assms Inr Inl show ?thesis by auto
                next
                  case pr: (Inr peopleResponse)
                  with company Inr data orgs ch t chosen cid tid pl
                  have "requests_of (snd (employeesOfCompany_try net apiKey query)) = [?creq, ?preq]"
                    by (simp add: employeesOfCompany_try_def stripUrl_io_def io_defs rq
                        split: sum.splits prod.splits)
                  with assms Inr pr show ?thesis by auto
                qed
              qed
            qed
          qed
        qed
      qed
    qed
  qed
qed

lemma catch_rejected:
  assumes "fst m = Inl e"
  shows "io_catch m (\<lambda>error. io_bind (io_emit (ConsoleError [Val (Str (p @ message error))]))
           (\<lambda>_. io_return Null))
         = (Inr Null, snd m @ [ConsoleError [Val (Str (p @ message e))]])"
  using assms by (cases m) (simp add: io_defs)

lemma requests_of_catch:
  "requests_of (snd (io_catch m (\<lambda>error. io_bind (io_emit (ConsoleError (l error)))
           (\<lambda>_. io_return (v error))))) = requests_of (snd m)"
  by (cases m) (auto simp: io_defs requests_of_append split: sum.splits)

lemma employeesOfCompany_request_rejected:
  assumes "req \<in> set (requests_of (snd (employeesOfCompany net apiKey query)))"
    and "net req = Inl e"
  shows "employeesOfCompany net apiKey query =
           (Inr Null,
            snd (employeesOfCompany_try net apiKey query)
            @ [ConsoleError [Val (Str (''Error finding employees: '' @ message e))]])"
proof -
  from assms(1) have "req \<in> set (requests_of (snd (employeesOfCompany_try net apiKey query)))"
    unfolding employeesOfCompany_def requests_of_catch .
  from employeesOfCompany_try_request_rejected [OF this assms(2)]
  show ?thesis unfolding employeesOfCompany_def by (rule catch_rejected)
qed

lemma getPersonEmail_request_rejected:
  assumes "req \<in> set (requests_of (snd (getPersonEmail net apiKey now apolloId)))"
    and "net req = Inl e"
  shows "getPersonEmail net apiKey now apolloId =
           (Inr Null,
            snd (getPersonEmail_try net apiKey now apolloId)
            @ [ConsoleError [Val (Str (''Error getting person email: '' @ message e))]])"
proof -
  from assms(1) have "req \<in> set (requests_of (snd (getPersonEmail_try net apiKey now apolloId)))"
    unfolding getPersonEmail_def requests_of_catch .
  from getPersonEmail_try_request_rejected [OF this assms(2)]
  show ?thesis unfolding getPersonEmail_def by (rule catch_rejected)
qed

lemma getPersonEmail_first_rejected:
  "truthy apolloId \<longrightarrow> net (getPersonEmail_request apiKey now apolloId) = Inl e \<longrightarrow>
     getPersonEmail net apiKey now apolloId =
       (Inr Null, [Request (getPersonEmail_request apiKey now apolloId),
                   ConsoleError [Val (Str (''Error getting person email: '' @ message e))]])"
  using getPersonEmail_rejected by blast

lemma employeesOfCompany_first_rejected:
  "truthy (get_prop query ''company'') \<longrightarrow>
   net (company_search_request apiKey (get_prop query ''company'')) = Inl e \<longrightarrow>
     employeesOfCompany net apiKey query =
       (Inr Null,
        stripUrl_log (get_prop query ''website_url'')
        @ stripUrl_log (get_prop query ''linkedin_url'')
        @ [Request (company_search_request apiKey (get_prop query ''company'')),
           ConsoleError [Val (Str (''Error finding employees: '' @ message e))]])"
  using employeesOfCompany_rejected by blast

lemma getPersonEmail_any_rejected:
  "req \<in> set (requests_of (snd (getPersonEmail net apiKey now apolloId))) \<longrightarrow>
   net req = Inl e \<longrightarrow>
     getPersonEmail net apiKey now apolloId =
       (Inr Null,
        snd (getPersonEmail_try net apiKey now apolloId)
        @ [ConsoleError [Val (Str (''Error getting person email: '' @ message e))]])"
  using getPersonEmail_request_rejected by blast

lemma employeesOfCompany_any_rejected:
  "req \<in> set (requests_of (snd (employeesOfCompany net apiKey query))) \<longrightarrow>
   net req = Inl e \<longrightarrow>
     employeesOfCompany net apiKey query =
       (Inr Null,
        snd (employeesOfCompany_try net apiKey query)
        @ [ConsoleError [Val (Str (''Error finding employees: '' @ message e))]])"
  using employeesOfCompany_request_rejected by blast

lemma getPersonEmail_rejected_null:
  "req \<in> set (requests_of (snd (getPersonEmail net apiKey now apolloId))) \<longrightarrow>
   isl (net req) \<longrightarrow> fst (getPersonEmail net apiKey now apolloId) = Inr Null"
proof (intro impI)
  assume r: "req \<in> set (requests_of (snd (getPersonEmail net apiKey now apolloId)))"
    and "isl (net req)"
  then obtain e where "net req = Inl e" by (cases "net req") simp_all
  from getPersonEmail_request_rejected [OF r this]
  show "fst (getPersonEmail net apiKey now apolloId) = Inr Null" by simp
qed

lemma employeesOfCompany_rejected_null:
  "req \<in> set (requests_of (snd (employeesOfCompany net apiKey query))) \<longrightarrow>
   isl (net req) \<longrightarrow> fst (employeesOfCompany net apiKey query) = Inr Null"
proof (intro impI)
  assume r: "req \<in> set (requests_of (snd (employeesOfCompany net apiKey query)))"
    and "isl (net req)"
  then obtain e where "net req = Inl e" by (cases "net req") simp_all
  from employeesOfCompany_request_rejected [OF r this]
  show "fst (employeesOfCompany net apiKey query) = Inr Null" by simp
qed

text \<open>The run of \<open>employeesOfCompany\<close> for the company \<open>Acme\<close> on the transport that rejects
  the people search.\<close>

lemma employeesOfCompany_try_people_search_rejected:
  "employeesOfCompany_try net_people_search_rejected ''key'' [(''company'', Str ''Acme'')] =
     (Inl (AxiosError ''Request failed with status code 429''
             (Some \<lparr>status = 429, statusText = ''Too Many Requests'', data = Null\<rparr>)),
      [Request (company_search_request ''key'' (Str ''Acme'')),
       Request (people_search_request ''key''
          [(''organization_ids'', Arr [Str ''A'']), (''page'', Num 1), (''limit'', Num 100)])])"
  by (simp add: net_people_search_rejected_def get_prop_def employeesOfCompany_try_def
      choose_company_def url_matches_def people_search_payload_def exn_bind_def stripUrl_io_def
      stripUrl_log_def io_defs company_search_request_def people_search_request_def)

text \<open>A job-postings call whose organization identifier is an object with an own
  \<open>toString\<close> property issues no request.\<close>

lemma organizationJobPostings_unprintable_id:
  "organizationJobPostings net apiKey (Obj [(''toString'', Num 1)]) =
     (Inr Null,
      [ConsoleError [Val (Str ''Error: undefined - Cannot convert object to primitive value'')]])"
  by (simp add: organizationJobPostings_cases error_line_def)

text \<open>
  C1, as the code has it. Each of the six enrichment, search and job-postings operations
  returns \<open>null\<close> when the request is rejected and when the response has a status other than
  200, and returns the payload of a response with status 200; a search whose formatter
  throws, and a job-postings call whose identifier cannot be converted to a string, return
  \<open>null\<close> without a request. The status code and status text (the error's message when the
  error carries no response or an empty status text) go to the console only. The email
  lookup and the employees-of-company operation return \<open>null\<close> when a request they issued
  is rejected, be it the organization search or the people search, and log the error's
  message.
\<close>

theorem client_failure_is_null:
  "peopleEnrichment net apiKey query =
     (case net (peopleEnrichment_request apiKey query) of
        Inl error \<Rightarrow>
          (Inr Null,
           [ConsoleLog [Val (Str ''url''), Val (Str (baseUrl @ ''/people/match''))],
            ConsoleLog [Val (Str ''query''), Val (Obj query)],
            Request (peopleEnrichment_request apiKey query),
            ConsoleError [Val (Str (error_line error))]])
      | Inr r \<Rightarrow>
          if status r = 200 then
            (Inr (data r),
             [ConsoleLog [Val (Str ''url''), Val (Str (baseUrl @ ''/people/match''))],
              ConsoleLog [Val (Str ''query''), Val (Obj query)],
              Request (peopleEnrichment_request apiKey query)])
          else
            (Inr Null,
             [ConsoleLog [Val (Str ''url''), Val (Str (baseUrl @ ''/people/match''))],
              ConsoleLog [Val (Str ''query''), Val (Obj query)],
              Request (peopleEnrichment_request apiKey query),
              ConsoleError [Val (Str (status_line r))]]))
   \<and> bulkPeopleEnrichment net apiKey query =
     (case net (bulkPeopleEnrichment_request apiKey query) of
        Inl error \<Rightarrow> (Inr Null, [Request (bulkPeopleEnrichment_request apiKey query),
                                ConsoleError [Val (Str (error_line error))]])
      | Inr r \<Rightarrow>
          if status r = 200 then (Inr (data r), [Request (bulkPeopleEnrichment_request apiKey query)])
          else (Inr Null, [Request (bulkPeopleEnrichment_request apiKey query),
                           ConsoleError [Val (Str (status_line r))]]))
   \<and> organizationEnrichment net apiKey query =
     (case net (organizationEnrichment_request apiKey query) of
        Inl error \<Rightarrow> (Inr Null, [Request (organizationEnrichment_request apiKey query),
                                ConsoleError [Val (Str (error_line error))]])
      | Inr r \<Rightarrow>
          if status r = 200 then (Inr (data r), [Request (organizationEnrichment_request apiKey query)])
          else (Inr Null, [Request (organizationEnrichment_request apiKey query),
                           ConsoleError [Val (Str (status_line r))]]))
   \<and> peopleSearch net apiKey query =
     (case formatQueryParams query of
        Inl error \<Rightarrow> (Inr Null, [ConsoleError [Val (Str (error_line error))]])
      | Inr fp \<Rightarrow>
         (case net (peopleSearch_request apiKey fp) of
            Inl error \<Rightarrow> (Inr Null, [Request (peopleSearch_request apiKey fp),
                                    ConsoleError [Val (Str (error_line error))]])
          | Inr r \<Rightarrow>
              if status r = 200 then (Inr (data r), [Request (peopleSearch_request apiKey fp)])
              else (Inr Null, [Request (peopleSearch_request apiKey fp),
                               ConsoleError [Val (Str (status_line r))]])))
   \<and> organizationSearch net apiKey query =
     (case formatQueryParams query of
        Inl error \<Rightarrow> (Inr Null, [ConsoleError [Val (Str (error_line error))]])
      | Inr fp \<Rightarrow>
         (case net (organizationSearch_request apiKey fp) of
            Inl error \<Rightarrow> (Inr Null, [Request (organizationSearch_request apiKey fp),
                                    ConsoleError [Val (Str (error_line error))]])
          | Inr r \<Rightarrow>
              if status r = 200 then (Inr (data r), [Request (organizationSearch_request apiKey fp)])
              else (Inr Null, [Request (organizationSearch_request apiKey fp),
                               ConsoleError [Val (Str (status_line r))]])))
   \<and> organizationJobPostings net apiKey organizationId =
     (case to_string organizationId of
        Inl error \<Rightarrow> (Inr Null, [ConsoleError [Val (Str (error_line error))]])
      | Inr idText \<Rightarrow>
         (case net (organizationJobPostings_request apiKey idText) of
            Inl error \<Rightarrow> (Inr Null, [Request (organizationJobPostings_request apiKey idText),
                                    ConsoleError [Val (Str (error_line error))]])
          | Inr r \<Rightarrow>
              if status r = 200
              then (Inr (data r), [Request (organizationJobPostings_request apiKey idText)])
              else (Inr Null, [Request (organizationJobPostings_request apiKey idText),
                               ConsoleError [Val (Str (status_line r))]])))
   \<and> (truthy apolloId \<longrightarrow> net (getPersonEmail_request apiKey now apolloId) = Inl e \<longrightarrow>
        getPersonEmail net apiKey now apolloId =
          (Inr Null, [Request (getPersonEmail_request apiKey now apolloId),
                      ConsoleError [Val (Str (''Error getting person email: '' @ message e))]]))
   \<and> (truthy (get_prop query ''company'') \<longrightarrow>
       net (company_search_request apiKey (get_prop query ''company'')) = Inl e \<longrightarrow>
        employeesOfCompany net apiKey query =
          (Inr Null,
           stripUrl_log (get_prop query ''website_url'')
           @ stripUrl_log (get_prop query ''linkedin_url'')
           @ [Request (company_search_request apiKey (get_prop query ''company'')),
              ConsoleError [Val (Str (''Error finding employees: '' @ message e))]]))
   \<and> (req \<in> set (requests_of (snd (getPersonEmail net apiKey now apolloId))) \<longrightarrow>
       net req = Inl e \<longrightarrow>
        getPersonEmail net apiKey now apolloId =
          (Inr Null,
           snd (getPersonEmail_try net apiKey now apolloId)
           @ [ConsoleError [Val (Str (''Error getting person email: '' @ message e))]]))
   \<and> (req \<in> set (requests_of (snd (employeesOfCompany net apiKey query))) \<longrightarrow>
       net req = Inl e \<longrightarrow>
        employeesOfCompany net apiKey query =
          (Inr Null,
           snd (employeesOfCompany_try net apiKey query)
           @ [ConsoleError [Val (Str (''Error finding employees: '' @ message e))]]))
   \<and> error_line (AxiosError m (Some resp)) =
        ''Error: '' @ show_int (status resp) @ '' - ''
          @ (if statusText resp \<noteq> [] then statusText resp else m)
   \<and> error_line (AxiosError m None) = ''Error: undefined - '' @ m"
  by (intro conjI)
    (rule peopleEnrichment_cases bulkPeopleEnrichment_cases organizationEnrichment_cases
      peopleSearch_cases organizationSearch_cases organizationJobPostings_cases
      getPersonEmail_first_rejected employeesOfCompany_first_rejected
      getPersonEmail_any_rejected employeesOfCompany_any_rejected
      error_line_response error_line_no_response)+

text \<open>The theorem on a transport that rejects every request with a 404 response, and on
  the transport that rejects the people search of \<open>employeesOfCompany\<close>.\<close>

theorem client_failure_is_null_witness:
  "truthy (Str ''p1'')
   \<and> net_404 (getPersonEmail_request ''key'' 0 (Str ''p1'')) =
       Inl (AxiosError ''Request failed with status code 404''
              (Some \<lparr>status = 404, statusText = ''Not Found'', data = Null\<rparr>))
   \<and> getPersonEmail net_404 ''key'' 0 (Str ''p1'') =
       (Inr Null, [Request (getPersonEmail_request ''key'' 0 (Str ''p1'')),
          ConsoleError [Val (Str ''Error getting person email: Request failed with status code 404'')]])
   \<and> employeesOfCompany net_404 ''key'' [(''company'', Str ''Acme'')] =
       (Inr Null, [Request (company_search_request ''key'' (Str ''Acme'')),
          ConsoleError [Val (Str ''Error finding employees: Request failed with status code 404'')]])
   \<and> bulkPeopleEnrichment net_404 ''key'' [] =
       (Inr Null, [Request (bulkPeopleEnrichment_request ''key'' []),
          ConsoleError [Val (Str ''Error: 404 - Not Found'')]])
   \<and> people_search_request ''key''
         [(''organization_ids'', Arr [Str ''A'']), (''page'', Num 1), (''limit'', Num 100)]
       \<in> set (requests_of (snd (employeesOfCompany net_people_search_rejected ''key''
                [(''company'', Str ''Acme'')])))
   \<and> net_people_search_rejected (people_search_request ''key''
         [(''organization_ids'', Arr [Str ''A'']), (''page'', Num 1), (''limit'', Num 100)]) =
       Inl (AxiosError ''Request failed with status code 429''
              (Some \<lparr>status = 429, statusText = ''Too Many Requests'', data = Null\<rparr>))
   \<and> employeesOfCompany net_people_search_rejected ''key'' [(''company'', Str ''Acme'')] =
       (Inr Null,
        [Request (company_search_request ''key'' (Str ''Acme'')),
         Request (people_search_request ''key''
           [(''organization_ids'', Arr [Str ''A'']), (''page'', Num 1), (''limit'', Num 100)]),
         ConsoleError [Val (Str ''Error finding employees: Request failed with status code 429'')]])"
proof -
  let ?e429 = "AxiosError ''Request failed with status code 429''
              (Some \<lparr>status = 429, statusText = ''Too Many Requests'', data = Null\<rparr>)"
  let ?q = "[(''company'', Str ''Acme'')]"
  let ?preq = "people_search_request ''key''
         [(''organization_ids'', Arr [Str ''A'']), (''page'', Num 1), (''limit'', Num 100)]"
  note inst3 = client_failure_is_null [where net = net_people_search_rejected
      and apiKey = "''key''" and query = ?q and req = ?preq and e = ?e429]
  have h5: "?preq \<in> set (requests_of (snd (employeesOfCompany net_people_search_rejected
      ''key'' ?q)))"
    by (simp add: employeesOfCompany_def employeesOfCompany_try_people_search_rejected io_defs)
  have h6: "net_people_search_rejected ?preq = Inl ?e429"
    by (simp add: net_people_search_rejected_def people_search_request_def)
  from inst3 h5 h6 have "employeesOfCompany net_people_search_rejected ''key'' ?q =
          (Inr Null,
           snd (employeesOfCompany_try net_people_search_rejected ''key'' ?q)
           @ [ConsoleError [Val (Str (''Error finding employees: '' @ message ?e429))]])"
    by blast
  then have c4: "employeesOfCompany net_people_search_rejected ''key'' ?q =
       (Inr Null,
        [Request (company_search_request ''key'' (Str ''Acme'')), Request ?preq,
         ConsoleError [Val (Str ''Error finding employees: Request failed with status code 429'')]])"
    by (simp add: employeesOfCompany_try_people_search_rejected)
  let ?e = "AxiosError ''Request failed with status code 404''
              (Some \<lparr>status = 404, statusText = ''Not Found'', data = Null\<rparr>)"
  note inst = client_failure_is_null [where net = net_404 and apiKey = "''key''"
      and query = "[(''company'', Str ''Acme'')]" and apolloId = "Str ''p1''" and now = 0
      and e = ?e]
  note inst2 = client_failure_is_null [where net = net_404 and apiKey = "''key''" and query = "[]"]
  have h1: "truthy (Str ''p1'')" by simp
  have h2: "net_404 (getPersonEmail_request ''key'' 0 (Str ''p1'')) = Inl ?e"
    by (simp add: net_404_def)
  have h3: "truthy (get_prop [(''company'', Str ''Acme'')] ''company'')"
    by (simp add: get_prop_def)
  have h4: "net_404 (company_search_request ''key'' (get_prop [(''company'', Str ''Acme'')] ''company'')) = Inl ?e"
    by (simp add: net_404_def)
  from inst h1 h2 have c1: "getPersonEmail net_404 ''key'' 0 (Str ''p1'') =
       (Inr Null, [Request (getPersonEmail_request ''key'' 0 (Str ''p1'')),
          ConsoleError [Val (Str (''Error getting person email: '' @ message ?e))]])"
    by blast
  from inst h3 h4 have c2: "employeesOfCompany net_404 ''key'' [(''company'', Str ''Acme'')] =
       (Inr Null,
        stripUrl_log (get_prop [(''company'', Str ''Acme'')] ''website_url'')
        @ stripUrl_log (get_prop [(''company'', Str ''Acme'')] ''linkedin_url'')
        @ [Request (company_search_request ''key'' (get_prop [(''company'', Str ''Acme'')] ''company'')),
           ConsoleError [Val (Str (''Error finding employees: '' @ message ?e))]])"
    by blast
  from inst2 have "bulkPeopleEnrichment net_404 ''key'' [] =
     (case net_404 (bulkPeopleEnrichment_request ''key'' []) of
        Inl error \<Rightarrow> (Inr Null, [Request (bulkPeopleEnrichment_request ''key'' []),
                                ConsoleError [Val (Str (error_line error))]])
      | Inr r \<Rightarrow>
          if status r = 200 then (Inr (data r), [Request (bulkPeopleEnrichment_request ''key'' [])])
          else (Inr Null, [Request (bulkPeopleEnrichment_request ''key'' []),
                           ConsoleError [Val (Str (status_line r))]]))"
    by blast
  then have c3: "bulkPeopleEnrichment net_404 ''key'' [] =
       (Inr Null, [Request (bulkPeopleEnrichment_request ''key'' []),
          ConsoleError [Val (Str ''Error: 404 - Not Found'')]])"
    by (simp add: net_404_def error_line_def show_int_def digits.simps)
  from c1 c2 have "getPersonEmail net_404 ''key'' 0 (Str ''p1'') =
       (Inr Null, [Request (getPersonEmail_request ''key'' 0 (Str ''p1'')),
          ConsoleError [Val (Str ''Error getting person email: Request failed with status code 404'')]])"
    and "employeesOfCompany net_404 ''key'' [(''company'', Str ''Acme'')] =
       (Inr Null, [Request (company_search_request ''key'' (Str ''Acme'')),
          ConsoleError [Val (Str ''Error finding employees: Request failed with status code 404'')]])"
    by (simp_all add: get_prop_def stripUrl_log_def)
  with h1 h2 c3 h5 h6 c4 show ?thesis by blast
qed

text \<open>The result of a person enrichment whose request is rejected with a 404 response is the
  result of one that is answered with status 200 and the payload \<open>null\<close>: it is \<open>null\<close>, and
  carries neither status code nor message.\<close>

theorem client_failure_equals_null_success:
  "fst (peopleEnrichment net_404 ''key'' []) = Inr Null
   \<and> fst (peopleEnrichment net_200_null ''key'' []) = Inr Null"
  by (simp add: peopleEnrichment_cases net_404_def net_200_null_def)

text \<open>
  C4. No operation of the client raises. The six enrichment, search and job-postings
  operations return \<open>null\<close> unless the response has status 200, when they return its
  payload (in a search, also when the formatter throws; in the job postings, also when the
  identifier cannot be converted to a string). The email lookup and the
  employees-of-company operation return \<open>null\<close> for whatever their \<open>try\<close> block throws: the
  missing Apollo ID or company name, and every rejected request, the people search of
  \<open>employeesOfCompany\<close> included. A call of the handler whose client call returns \<open>null\<close> is
  answered with the text \<open>null\<close> and without \<open>isError\<close>, and the client calls of the handler
  are the operations of the client.
\<close>

theorem client_failures_become_null_payload:
  "\<not> isl (fst (peopleEnrichment net apiKey query))
   \<and> \<not> isl (fst (bulkPeopleEnrichment net apiKey query))
   \<and> \<not> isl (fst (organizationEnrichment net apiKey query))
   \<and> \<not> isl (fst (peopleSearch net apiKey query))
   \<and> \<not> isl (fst (organizationSearch net apiKey query))
   \<and> \<not> isl (fst (organizationJobPostings net apiKey organizationId))
   \<and> \<not> isl (fst (getPersonEmail net apiKey now apolloId))
   \<and> \<not> isl (fst (employeesOfCompany net apiKey query))
   \<and> fst (peopleEnrichment net apiKey query) =
     (case net (peopleEnrichment_request apiKey query) of
        Inl error \<Rightarrow> Inr Null
      | Inr r \<Rightarrow> if status r = 200 then Inr (data r) else Inr Null)
   \<and> fst (bulkPeopleEnrichment net apiKey query) =
     (case net (bulkPeopleEnrichment_request apiKey query) of
        Inl error \<Rightarrow> Inr Null
      | Inr r \<Rightarrow> if status r = 200 then Inr (data r) else Inr Null)
   \<and> fst (organizationEnrichment net apiKey query) =
     (case net (organizationEnrichment_request apiKey query) of
        Inl error \<Rightarrow> Inr Null
      | Inr r \<Rightarrow> if status r = 200 then Inr (data r) else Inr Null)
   \<and> fst (organizationJobPostings net apiKey organizationId) =
     (case to_string organizationId of
        Inl error \<Rightarrow> Inr Null
      | Inr idText \<Rightarrow>
          (case net (organizationJobPostings_request apiKey idText) of
             Inl error \<Rightarrow> Inr Null
           | Inr r \<Rightarrow> if status r = 200 then Inr (data r) else Inr Null))
   \<and> fst (peopleSearch net apiKey query) =
     (case formatQueryParams query of
        Inl error \<Rightarrow> Inr Null
      | Inr fp \<Rightarrow>
          (case net (peopleSearch_request apiKey fp) of
             Inl error \<Rightarrow> Inr Null
           | Inr r \<Rightarrow> if status r = 200 then Inr (data r) else Inr Null))
   \<and> fst (organizationSearch net apiKey query) =
     (case formatQueryParams query of
        Inl error \<Rightarrow> Inr Null
      | Inr fp \<Rightarrow>
          (case net (organizationSearch_request apiKey fp) of
             Inl error \<Rightarrow> Inr Null
           | Inr r \<Rightarrow> if status r = 200 then Inr (data r) else Inr Null))
   \<and> (getPersonEmail_try net apiKey now apolloId = (Inl e, trace) \<longrightarrow>
      getPersonEmail net apiKey now apolloId =
        (Inr Null,
         trace @ [ConsoleError [Val (Str (''Error getting person email: '' @ message e))]]))
   \<and> (\<not> truthy apolloId \<longrightarrow>
      getPersonEmail_try net apiKey now apolloId = (Inl (Error ''Apollo ID is required''), []))
   \<and> (truthy apolloId \<longrightarrow> net (getPersonEmail_request apiKey now apolloId) = Inl e \<longrightarrow>
      getPersonEmail_try net apiKey now apolloId =
        (Inl e, [Request (getPersonEmail_request apiKey now apolloId)]))
   \<and> (employeesOfCompany_try net apiKey query = (Inl e, trace) \<longrightarrow>
      employeesOfCompany net apiKey query =
        (Inr Null,
         trace @ [ConsoleError [Val (Str (''Error finding employees: '' @ message e))]]))
   \<and> (\<not> truthy (get_prop query ''company'') \<longrightarrow>
      employeesOfCompany_try net apiKey query = (Inl (Error ''Company name is required''), []))
   \<and> (truthy (get_prop query ''company'') \<longrightarrow>
    net (company_search_request apiKey (get_prop query ''company'')) = Inl e \<longrightarrow>
      employeesOfCompany_try net apiKey query =
        (Inl e,
         stripUrl_log (get_prop query ''website_url'')
         @ stripUrl_log (get_prop query ''linkedin_url'')
         @ [Request (company_search_request apiKey (get_prop query ''company''))]))
   \<and> (req \<in> set (requests_of (snd (getPersonEmail net apiKey now apolloId))) \<longrightarrow>
      isl (net req) \<longrightarrow> fst (getPersonEmail net apiKey now apolloId) = Inr Null)
   \<and> (req \<in> set (requests_of (snd (employeesOfCompany net apiKey query))) \<longrightarrow>
      isl (net req) \<longrightarrow> fst (employeesOfCompany net apiKey query) = Inr Null)
   \<and> (\<not> details_missing (name request) (request_args request) \<longrightarrow>
    fst (client_call client (name request) (sanitize_args (name request) (request_args request)))
      = Inr Null \<longrightarrow>
      fst (call_tool client request) =
        Inr \<lparr>content = [\<lparr>content_type = ''text'', content_text = Str ''null''\<rparr>],
             isError = None\<rparr>)
   \<and> client_call (ApolloClient net apiKey now) ''bulk_people_enrichment'' args = bulkPeopleEnrichment net apiKey args
   \<and> client_call (ApolloClient net apiKey now) ''people_enrichment'' args = peopleEnrichment net apiKey args
   \<and> client_call (ApolloClient net apiKey now) ''organization_enrichment'' args = organizationEnrichment net apiKey args
   \<and> client_call (ApolloClient net apiKey now) ''people_search'' args = peopleSearch net apiKey args
   \<and> client_call (ApolloClient net apiKey now) ''organization_search'' args = organizationSearch net apiKey args
   \<and> client_call (ApolloClient net apiKey now) ''organization_job_postings'' args = organizationJobPostings net apiKey (get_prop args ''organization_id'')
   \<and> client_call (ApolloClient net apiKey now) ''get_person_email'' args = getPersonEmail net apiKey now (get_prop args ''apollo_id'')
   \<and> client_call (ApolloClient net apiKey now) ''employees_of_company'' args = employeesOfCompany net apiKey args"
  by (intro conjI)
    (rule peopleEnrichment_total bulkPeopleEnrichment_total organizationEnrichment_total
      peopleSearch_total organizationSearch_total organizationJobPostings_total
      getPersonEmail_total employeesOfCompany_total
      peopleEnrichment_result bulkPeopleEnrichment_result organizationEnrichment_result
      organizationJobPostings_result peopleSearch_result organizationSearch_result
      getPersonEmail_caught getPersonEmail_try_missing_id getPersonEmail_try_rejected
      employeesOfCompany_caught employeesOfCompany_try_missing_company
      employeesOfCompany_try_rejected getPersonEmail_rejected_null
      employeesOfCompany_rejected_null call_tool_null_payload client_call_ApolloClient)+

text \<open>The theorem on five calls of the handler: a person enrichment that is rejected, one that
  is answered with the payload \<open>null\<close>, an email lookup without Apollo ID, an
  employees-of-company call whose organization search is rejected, and one whose people
  search is rejected. All five are answered with the same response.\<close>

theorem client_failures_become_null_payload_witness:
  "fst (call_tool (ApolloClient net_404 ''key'' 0) \<lparr>name = ''people_enrichment'', arguments = None\<rparr>)
     = Inr \<lparr>content = [\<lparr>content_type = ''text'', content_text = Str ''null''\<rparr>], isError = None\<rparr>
   \<and> fst (call_tool (ApolloClient net_200_null ''key'' 0) \<lparr>name = ''people_enrichment'', arguments = None\<rparr>)
     = Inr \<lparr>content = [\<lparr>content_type = ''text'', content_text = Str ''null''\<rparr>], isError = None\<rparr>
   \<and> fst (call_tool (ApolloClient net_404 ''key'' 0) \<lparr>name = ''get_person_email'', arguments = None\<rparr>)
     = Inr \<lparr>content = [\<lparr>content_type = ''text'', content_text = Str ''null''\<rparr>], isError = None\<rparr>
   \<and> fst (call_tool (ApolloClient net_404 ''key'' 0)
        \<lparr>name = ''employees_of_company'', arguments = Some [(''company'', Str ''Acme'')]\<rparr>)
     = Inr \<lparr>content = [\<lparr>content_type = ''text'', content_text = Str ''null''\<rparr>], isError = None\<rparr>
   \<and> fst (call_tool (ApolloClient net_people_search_rejected ''key'' 0)
        \<lparr>name = ''employees_of_company'', arguments = Some [(''company'', Str ''Acme'')]\<rparr>)
     = Inr \<lparr>content = [\<lparr>content_type = ''text'', content_text = Str ''null''\<rparr>], isError = None\<rparr>"
proof -
  let ?null = "Inr \<lparr>content = [\<lparr>content_type = ''text'', content_text = Str ''null''\<rparr>],
                    isError = None\<rparr> :: exn + call_tool_result"
  let ?e = "AxiosError ''Request failed with status code 404''
              (Some \<lparr>status = 404, statusText = ''Not Found'', data = Null\<rparr>)"
  let ?pe = "\<lparr>name = ''people_enrichment'', arguments = None\<rparr>"
  let ?gp = "\<lparr>name = ''get_person_email'', arguments = None\<rparr>"
  let ?ec = "\<lparr>name = ''employees_of_company'', arguments = Some [(''company'', Str ''Acme'')]\<rparr>"
  have v: "\<not> details_missing (name ?pe) (request_args ?pe)"
    "\<not> details_missing (name ?gp) (request_args ?gp)"
    "\<not> details_missing (name ?ec) (request_args ?ec)"
    by (simp_all add: details_missing_def)
  note i1 = client_failures_become_null_payload [where net = net_404 and apiKey = "''key''"
      and now = 0 and query = "[]" and args = "[]" and request = ?pe
      and client = "ApolloClient net_404 ''key'' 0"]
  from i1 have "fst (peopleEnrichment net_404 ''key'' []) =
     (case net_404 (peopleEnrichment_request ''key'' []) of
        Inl error \<Rightarrow> Inr Null
      | Inr r \<Rightarrow> if status r = 200 then Inr (data r) else Inr Null)" by blast
  then have "fst (peopleEnrichment net_404 ''key'' []) = Inr Null"
    by (simp add: net_404_def)
  moreover from i1 have "client_call (ApolloClient net_404 ''key'' 0) ''people_enrichment'' []
      = peopleEnrichment net_404 ''key'' []" by blast
  ultimately have "fst (client_call (ApolloClient net_404 ''key'' 0) (name ?pe)
      (sanitize_args (name ?pe) (request_args ?pe))) = Inr Null"
    by (simp add: sanitize_args_def request_args_def)
  with i1 v(1) have c1: "fst (call_tool (ApolloClient net_404 ''key'' 0) ?pe) = ?null" by blast
  note i2 = client_failures_become_null_payload [where net = net_200_null and apiKey = "''key''"
      and now = 0 and query = "[]" and args = "[]" and request = ?pe
      and client = "ApolloClient net_200_null ''key'' 0"]
  from i2 have "fst (peopleEnrichment net_200_null ''key'' []) =
     (case net_200_null (peopleEnrichment_request ''key'' []) of
        Inl error \<Rightarrow> Inr Null
      | Inr r \<Rightarrow> if status r = 200 then Inr (data r) else Inr Null)" by blast
  then have "fst (peopleEnrichment net_200_null ''key'' []) = Inr Null"
    by (simp add: net_200_null_def)
  moreover from i2 have "client_call (ApolloClient net_200_null ''key'' 0) ''people_enrichment'' []
      = peopleEnrichment net_200_null ''key'' []" by blast
  ultimately have "fst (client_call (ApolloClient net_200_null ''key'' 0) (name ?pe)
      (sanitize_args (name ?pe) (request_args ?pe))) = Inr Null"
    by (simp add: sanitize_args_def request_args_def)
  with i2 v(1) have c2: "fst (call_tool (ApolloClient net_200_null ''key'' 0) ?pe) = ?null"
    by blast
  note i3 = client_failures_become_null_payload [where net = net_404 and apiKey = "''key''"
      and now = 0 and apolloId = Undefined and args = "[]" and request = ?gp
      and client = "ApolloClient net_404 ''key'' 0"
      and e = "Error ''Apollo ID is required''" and trace = "[]"]
  have "\<not> truthy Undefined" by simp
  with i3 have "getPersonEmail_try net_404 ''key'' 0 Undefined
      = (Inl (Error ''Apollo ID is required''), [])" by blast
  with i3 have "getPersonEmail net_404 ''key'' 0 Undefined =
        (Inr Null, [] @ [ConsoleError [Val (Str (''Error getting person email: ''
           @ message (Error ''Apollo ID is required'')))]])" by blast
  then have "fst (getPersonEmail net_404 ''key'' 0 Undefined) = Inr Null" by simp
  moreover from i3 have "client_call (ApolloClient net_404 ''key'' 0) ''get_person_email'' []
      = getPersonEmail net_404 ''key'' 0 (get_prop [] ''apollo_id'')" by blast
  ultimately have "fst (client_call (ApolloClient net_404 ''key'' 0) (name ?gp)
      (sanitize_args (name ?gp) (request_args ?gp))) = Inr Null"
    by (simp add: sanitize_args_def request_args_def get_prop_def)
  with i3 v(2) have c3: "fst (call_tool (ApolloClient net_404 ''key'' 0) ?gp) = ?null" by blast
  note i4 = client_failures_become_null_payload [where net = net_404 and apiKey = "''key''"
      and now = 0 and query = "[(''company'', Str ''Acme'')]"
      and args = "[(''company'', Str ''Acme'')]" and request = ?ec
      and client = "ApolloClient net_404 ''key'' 0" and e = ?e
      and trace = "stripUrl_log (get_prop [(''company'', Str ''Acme'')] ''website_url'')
                   @ stripUrl_log (get_prop [(''company'', Str ''Acme'')] ''linkedin_url'')
                   @ [Request (company_search_request ''key''
                      (get_prop [(''company'', Str ''Acme'')] ''company''))]"]
  have "truthy (get_prop [(''company'', Str ''Acme'')] ''company'')"
    by (simp add: get_prop_def)
  moreover have "net_404 (company_search_request ''key''
      (get_prop [(''company'', Str ''Acme'')] ''company'')) = Inl ?e"
    by (simp add: net_404_def)
  ultimately have "employeesOfCompany_try net_404 ''key'' [(''company'', Str ''Acme'')] =
      (Inl ?e, stripUrl_log (get_prop [(''company'', Str ''Acme'')] ''website_url'')
                   @ stripUrl_log (get_prop [(''company'', Str ''Acme'')] ''linkedin_url'')
                   @ [Request (company_search_request ''key''
                      (get_prop [(''company'', Str ''Acme'')] ''company''))])"
    using i4 by blast
  with i4 have "employeesOfCompany net_404 ''key'' [(''company'', Str ''Acme'')] =
      (Inr Null, (stripUrl_log (get_prop [(''company'', Str ''Acme'')] ''website_url'')
                   @ stripUrl_log (get_prop [(''company'', Str ''Acme'')] ''linkedin_url'')
                   @ [Request (company_search_request ''key''
                      (get_prop [(''company'', Str ''Acme'')] ''company''))])
         @ [ConsoleError [Val (Str (''Error finding employees: '' @ message ?e))]])"
    by blast
  then have "fst (employeesOfCompany net_404 ''key'' [(''company'', Str ''Acme'')]) = Inr Null"
    by simp
  moreover from i4 have "client_call (ApolloClient net_404 ''key'' 0) ''employees_of_company''
      [(''company'', Str ''Acme'')] = employeesOfCompany net_404 ''key'' [(''company'', Str ''Acme'')]"
    by blast
  ultimately have "fst (client_call (ApolloClient net_404 ''key'' 0) (name ?ec)
      (sanitize_args (name ?ec) (request_args ?ec))) = Inr Null"
    by (simp add: sanitize_args_def request_args_def)
  with i4 v(3) have c4: "fst (call_tool (ApolloClient net_404 ''key'' 0) ?ec) = ?null" by blast
  let ?preq = "people_search_request ''key''
         [(''organization_ids'', Arr [Str ''A'']), (''page'', Num 1), (''limit'', Num 100)]"
  note i5 = client_failures_become_null_payload [where net = net_people_search_rejected
      and apiKey = "''key''" and now = 0 and query = "[(''company'', Str ''Acme'')]"
      and args = "[(''company'', Str ''Acme'')]" and request = ?ec and req = ?preq
      and client = "ApolloClient net_people_search_rejected ''key'' 0"]
  have "?preq \<in> set (requests_of (snd (employeesOfCompany net_people_search_rejected
      ''key'' [(''company'', Str ''Acme'')])))"
    by (simp add: employeesOfCompany_def employeesOfCompany_try_people_search_rejected io_defs)
  moreover have "isl (net_people_search_rejected ?preq)"
    by (simp add: net_people_search_rejected_def people_search_request_def)
  ultimately have "fst (employeesOfCompany net_people_search_rejected ''key''
      [(''company'', Str ''Acme'')]) = Inr Null"
    using i5 by blast
  moreover from i5 have "client_call (ApolloClient net_people_search_rejected ''key'' 0)
      ''employees_of_company'' [(''company'', Str ''Acme'')]
        = employeesOfCompany net_people_search_rejected ''key'' [(''company'', Str ''Acme'')]"
    by blast
  ultimately have "fst (client_call (ApolloClient net_people_search_rejected ''key'' 0) (name ?ec)
      (sanitize_args (name ?ec) (request_args ?ec))) = Inr Null"
    by (simp add: sanitize_args_def request_args_def)
  with i5 v(3) have c5: "fst (call_tool (ApolloClient net_people_search_rejected ''key'' 0) ?ec)
      = ?null" by blast
  from c1 c2 c3 c4 c5 show ?thesis by blast
qed

end
